theory Spec2Isabelle
  imports Complex_Main
begin

section \<open>Python values used by the service\<close>

text \<open>
  Python floats are modelled as rationals with exact arithmetic: comparisons, products
  and means are those of the exact values, and \<open>round\<close> and the \<open>.nf\<close> formats round
  the exact value half to even. Strings are ASCII character lists.
\<close>

definition py_int :: "rat \<Rightarrow> int" where
  \<comment> \<open>\<open>int(x)\<close> on a float: truncation toward zero.\<close>
  "py_int x = (if 0 \<le> x then \<lfloor>x\<rfloor> else \<lceil>x\<rceil>)"

definition round_half_even :: "rat \<Rightarrow> int" where
  "round_half_even x =
     (let f = \<lfloor>x\<rfloor>; d = x - of_int f
      in if d < 1 / 2 then f else if 1 / 2 < d then f + 1 else if even f then f else f + 1)"

definition py_round :: "rat \<Rightarrow> nat \<Rightarrow> rat" where
  \<comment> \<open>\<open>round(x, n)\<close>\<close>
  "py_round x n = of_int (round_half_even (x * 10 ^ n)) / 10 ^ n"

fun str_nat :: "nat \<Rightarrow> string" where
  "str_nat n =
     (if n < 10 then [char_of (48 + n)] else str_nat (n div 10) @ [char_of (48 + n mod 10)])"

declare str_nat.simps [simp del]

definition str_int :: "int \<Rightarrow> string" where
  "str_int i = (if i < 0 then ''-'' @ str_nat (nat (- i)) else str_nat (nat i))"

definition format_f :: "nat \<Rightarrow> rat \<Rightarrow> string" where
  \<comment> \<open>\<open>f"{x:.nf}"\<close>: sign, integer part and \<open>n\<close> zero-padded decimals.\<close>
  "format_f n x =
     (let q = nat (round_half_even (\<bar>x\<bar> * 10 ^ n));
          ipart = str_nat (q div 10 ^ n);
          frac = str_nat (q mod 10 ^ n)
      in (if x < 0 then ''-'' else '''') @ ipart @
         (if n = 0 then '''' else ''.'' @ replicate (n - length frac) (CHR ''0'') @ frac))"

definition lower_char :: "char \<Rightarrow> char" where
  "lower_char c =
     (let n = (of_char c :: nat) in if 65 \<le> n \<and> n \<le> 90 then char_of (n + 32) else c)"

definition lower :: "string \<Rightarrow> string" where
  "lower s = map lower_char s"

definition endswith :: "string \<Rightarrow> string list \<Rightarrow> bool" where
  \<comment> \<open>\<open>s.endswith((suf1, suf2, ...))\<close>\<close>
  "endswith s sufs = list_ex (\<lambda>suf. take (length suf) (rev s) = rev suf) sufs"

section \<open>Exceptions, records and the state of the service\<close>

datatype exn = HTTPException int string | ZeroDivisionError | Exception string

text \<open>
  \<open>str(e)\<close>: an \<open>HTTPException\<close> prints as its status code and detail, other
  exceptions as their message.
\<close>

fun str_exn :: "exn \<Rightarrow> string" where
  "str_exn (HTTPException code detail) = str_int code @ '': '' @ detail"
| "str_exn ZeroDivisionError = ''division by zero''"
| "str_exn (Exception msg) = msg"

type_synonym WebSocket = nat
type_synonym datetime = nat

datatype MediaType = MT_image | MT_video | MT_audio

datatype CaseStatus = analyzing | completed | failed

record Case =
  case_id :: string
  media_type :: MediaType
  status :: CaseStatus
  confidence :: rat
  submitted_at :: datetime
  completed_at :: "datetime option"
  verdict :: string
  face_score :: "rat option"
  voice_score :: "rat option"
  lipsync_score :: "rat option"
  explanation :: "string option"
  media_url :: "string option"
  heatmap_url :: "string option"
  worker_id :: string
  processing_time_ms :: "int option"
  filename :: string

text \<open>The dictionaries held in \<open>QueueManager.queue_items\<close>, one field for each key.\<close>

record queue_item =
  item_id :: string
  mediaType :: string
  submittedAt :: datetime
  progress :: int
  item_status :: string
  workerId :: string

record QueueManager =
  active_connections :: "WebSocket list"
  queue_items :: "queue_item list"

text \<open>
  The state an endpoint runs on: the module-level \<open>queue_manager\<close>, the rows of the
  \<open>cases\<close> table, and the JSON messages delivered so far over the web sockets, oldest
  first.
\<close>

record world =
  queue_manager :: QueueManager
  db :: "Case list"
  outbox :: "(WebSocket \<times> queue_item list) list"

text \<open>
  A statement sequence that may raise: it returns the exception or the value, together
  with the state reached at that point.
\<close>

type_synonym 'a prog = "world \<Rightarrow> (exn + 'a) \<times> world"

definition ret :: "'a \<Rightarrow> 'a prog" where
  "ret a = (\<lambda>w. (Inr a, w))"

definition raise :: "exn \<Rightarrow> 'a prog" where
  "raise e = (\<lambda>w. (Inl e, w))"

definition seq :: "'a prog \<Rightarrow> ('a \<Rightarrow> 'b prog) \<Rightarrow> 'b prog" where
  "seq m k = (\<lambda>w. case m w of (Inl e, w') \<Rightarrow> (Inl e, w') | (Inr a, w') \<Rightarrow> k a w')"

definition try_except :: "'a prog \<Rightarrow> (exn \<Rightarrow> 'a prog) \<Rightarrow> 'a prog" where
  "try_except m handler =
     (\<lambda>w. case m w of (Inl e, w') \<Rightarrow> handler e w' | (Inr a, w') \<Rightarrow> (Inr a, w'))"

definition modify :: "(world \<Rightarrow> world) \<Rightarrow> unit prog" where
  "modify f = (\<lambda>w. (Inr (), f w))"

definition on_queue :: "(QueueManager \<Rightarrow> QueueManager) \<Rightarrow> unit prog" where
  \<comment> \<open>a synchronous method call on the global \<open>queue_manager\<close>\<close>
  "on_queue f = modify (\<lambda>w. w\<lparr>queue_manager := f (queue_manager w)\<rparr>)"

section \<open>QueueManager\<close>

definition send_json :: "(WebSocket \<Rightarrow> bool) \<Rightarrow> WebSocket \<Rightarrow> queue_item list \<Rightarrow> unit prog" where
  \<comment> \<open>\<open>websocket.send_json(data)\<close>; \<open>fails\<close> tells for which sockets the call raises.\<close>
  "send_json fails websocket data =
     (\<lambda>w. if fails websocket then (Inl (Exception ''send_json failed''), w)
          else (Inr (), w\<lparr>outbox := outbox w @ [(websocket, data)]\<rparr>))"

definition connect :: "(WebSocket \<Rightarrow> bool) \<Rightarrow> WebSocket \<Rightarrow> unit prog" where
  "connect fails websocket =
     seq (on_queue (\<lambda>self. self\<lparr>active_connections := active_connections self @ [websocket]\<rparr>))
       (\<lambda>_ w. send_json fails websocket (queue_items (queue_manager w)) w)"

definition disconnect :: "WebSocket \<Rightarrow> QueueManager \<Rightarrow> QueueManager" where
  "disconnect websocket self =
     (if websocket \<in> set (active_connections self)
      then self\<lparr>active_connections := remove1 websocket (active_connections self)\<rparr>
      else self)"

fun broadcast_loop :: "(WebSocket \<Rightarrow> bool) \<Rightarrow> WebSocket list \<Rightarrow> queue_item list \<Rightarrow> unit prog" where
  "broadcast_loop fails [] data = ret ()"
| "broadcast_loop fails (connection # rest) data =
     seq (try_except (send_json fails connection data) (\<lambda>e. ret ()))
       (\<lambda>_. broadcast_loop fails rest data)"

definition broadcast :: "(WebSocket \<Rightarrow> bool) \<Rightarrow> queue_item list \<Rightarrow> unit prog" where
  "broadcast fails data =
     seq (on_queue (\<lambda>self. self\<lparr>queue_items := data\<rparr>))
       (\<lambda>_ w. broadcast_loop fails (active_connections (queue_manager w)) data w)"

definition add_item :: "queue_item \<Rightarrow> QueueManager \<Rightarrow> QueueManager" where
  "add_item item self = self\<lparr>queue_items := queue_items self @ [item]\<rparr>"

definition remove_item :: "string \<Rightarrow> QueueManager \<Rightarrow> QueueManager" where
  "remove_item iid self =
     self\<lparr>queue_items := filter (\<lambda>i. item_id i \<noteq> iid) (queue_items self)\<rparr>"

fun update_first :: "string \<Rightarrow> int \<Rightarrow> string \<Rightarrow> queue_item list \<Rightarrow> queue_item list" where
  \<comment> \<open>the loop of \<open>update_item\<close>: the first item with the ID is changed, then \<open>break\<close>\<close>
  "update_first iid p s [] = []"
| "update_first iid p s (item # rest) =
     (if item_id item = iid then item\<lparr>progress := p, item_status := s\<rparr> # rest
      else item # update_first iid p s rest)"

definition update_item :: "string \<Rightarrow> int \<Rightarrow> string \<Rightarrow> QueueManager \<Rightarrow> QueueManager" where
  "update_item iid p s self = self\<lparr>queue_items := update_first iid p s (queue_items self)\<rparr>"

section \<open>What an endpoint takes from outside\<close>

text \<open>
  Everything an endpoint reads from its surroundings is an input of the model: which
  sockets reject a message (the same ones for every broadcast of one call), the
  identifier and the worker number drawn for the new
  case, the clock readings, and whether the models are loaded. A collaborator call that
  may raise is given by its outcome: the message of the exception, or the value.

  One endpoint call is run from start to end on the state; calls of other requests
  interleaved at the \<open>await\<close> points are outside the model. The database session is
  taken to accept every commit, and the temporary file of the video endpoint, with its
  removal in the \<open>finally\<close> block, is not part of the state. A \<open>datetime\<close> is a
  number, and the ISO text of \<open>submittedAt\<close> is that number.
\<close>

record env =
  send_fails :: "WebSocket \<Rightarrow> bool"
  uuid_hex8 :: string
  randint_1_5 :: nat
  utcnow_submitted :: datetime
  utcnow_completed :: datetime
  elapsed_ms :: int
  models_loaded :: bool

definition call :: "string + 'a \<Rightarrow> 'a prog" where
  "call outcome = (case outcome of Inl msg \<Rightarrow> raise (Exception msg) | Inr a \<Rightarrow> ret a)"

definition truediv :: "rat \<Rightarrow> rat \<Rightarrow> rat prog" where
  \<comment> \<open>Python's \<open>a / b\<close>\<close>
  "truediv a b = (if b = 0 then raise ZeroDivisionError else ret (a / b))"

definition broadcast_queue :: "env \<Rightarrow> unit prog" where
  \<comment> \<open>\<open>await queue_manager.broadcast(queue_manager.queue_items)\<close>\<close>
  "broadcast_queue e = (\<lambda>w. broadcast (send_fails e) (queue_items (queue_manager w)) w)"

definition new_case :: "env \<Rightarrow> MediaType \<Rightarrow> string \<Rightarrow> Case" where
  \<comment> \<open>\<open>Case(media_type=..., status=CaseStatus.analyzing, filename=..., worker_id=...)\<close>
      with the column defaults\<close>
  "new_case e mt fname =
     \<lparr>case_id = ''case-'' @ uuid_hex8 e, media_type = mt, status = analyzing, confidence = 0,
      submitted_at = utcnow_submitted e, completed_at = None, verdict = ''Processing...'',
      face_score = None, voice_score = None, lipsync_score = None, explanation = None,
      media_url = None, heatmap_url = None,
      worker_id = ''worker-'' @ str_nat (randint_1_5 e), processing_time_ms = None,
      filename = fname\<rparr>"

definition db_add_commit :: "Case \<Rightarrow> unit prog" where
  \<comment> \<open>\<open>db.add(case); db.commit()\<close>\<close>
  "db_add_commit c = modify (\<lambda>w. w\<lparr>db := db w @ [c]\<rparr>)"

definition db_commit :: "Case \<Rightarrow> unit prog" where
  \<comment> \<open>\<open>db.commit()\<close> after attribute writes on the tracked object \<open>c\<close>: its row is
      rewritten in one transaction\<close>
  "db_commit c = modify (\<lambda>w. w\<lparr>db := map (\<lambda>r. if case_id r = case_id c then c else r) (db w)\<rparr>)"

definition new_queue_item :: "Case \<Rightarrow> string \<Rightarrow> queue_item" where
  "new_queue_item c media =
     \<lparr>item_id = case_id c, mediaType = media, submittedAt = submitted_at c, progress = 0,
      item_status = ''preprocessing'', workerId = worker_id c\<rparr>"

definition generate_explanation :: "bool \<Rightarrow> rat \<Rightarrow> string \<Rightarrow> string" where
  "generate_explanation is_fake conf media =
     (if is_fake then
        (if media = ''image'' then
           ''Analysis detected manipulation artifacts with '' @ format_f 1 conf @
           ''% confidence. Visual inconsistencies were found in facial features, lighting patterns, and texture details that are characteristic of AI-generated or manipulated content.''
         else if media = ''video'' then
           ''Multi-frame analysis detected deepfake indicators with '' @ format_f 1 conf @
           ''% confidence. Inconsistencies were found in facial movements, temporal coherence, and lipsync patterns across analyzed frames.''
         else
           ''Audio analysis detected voice manipulation with '' @ format_f 1 conf @
           ''% confidence. Spectral analysis reveals artifacts consistent with voice cloning or synthesis technology.'')
      else
        ''Analysis found no significant manipulation indicators. The content appears authentic with '' @
        format_f 1 (100 - conf) @ ''% confidence.'')"

section \<open>Image endpoint\<close>

record image_io =
  image_filename :: string
  open_outcome :: "string + unit"
  vit_outcome :: "string + (string \<times> rat)"
  random_random :: rat
  uniform_60_95 :: rat
  uniform_10_40 :: rat
  uniform_m5_5 :: rat
  uniform_0_10 :: rat

record image_result =
  img_caseId :: string
  img_filename :: string
  predicted_label :: string
  img_is_fake :: bool
  img_confidence :: rat
  img_verdict :: string
  img_explanation :: string

definition classify_image :: "env \<Rightarrow> image_io \<Rightarrow> (bool \<times> rat \<times> string) prog" where
  \<comment> \<open>the model branch and the mock branch; the value is \<open>(is_fake, confidence, label)\<close>\<close>
  "classify_image e io =
     (if models_loaded e then
        seq (call (vit_outcome io))
          (\<lambda>(label, conf).
             ret (lower label \<in> set [''fake'', ''deepfake'', ''manipulated''], conf, label))
      else
        (let is_fake = (4 / 10 < random_random io);
             conf = (if is_fake then uniform_60_95 io else uniform_10_40 io)
         in ret (is_fake, conf, if is_fake then ''Fake'' else ''Real'')))"

definition image_try :: "env \<Rightarrow> image_io \<Rightarrow> Case \<Rightarrow> image_result prog" where
  "image_try e io c =
     seq (call (open_outcome io)) (\<lambda>_.
     seq (on_queue (update_item (case_id c) 30 ''analyzing'')) (\<lambda>_.
     seq (broadcast_queue e) (\<lambda>_.
     seq (classify_image e io) (\<lambda>(is_fake, conf, label).
     seq (on_queue (update_item (case_id c) 70 ''llm_explaining'')) (\<lambda>_.
     seq (broadcast_queue e) (\<lambda>_.
     let expl = generate_explanation is_fake conf ''image'' in
     seq (on_queue (update_item (case_id c) 90 ''sending_result'')) (\<lambda>_.
     seq (broadcast_queue e) (\<lambda>_.
     let c' = c\<lparr>status := completed,
                confidence := py_round conf 1,
                verdict := format_f 0 conf @ ''% Likely '' @
                           (if is_fake then ''Manipulated'' else ''Authentic''),
                face_score := Some (if is_fake then py_round (conf + uniform_m5_5 io) 1
                                    else py_round (conf - uniform_0_10 io) 1),
                explanation := Some expl,
                completed_at := Some (utcnow_completed e),
                processing_time_ms := Some (elapsed_ms e)\<rparr> in
     seq (db_commit c') (\<lambda>_.
     seq (on_queue (remove_item (case_id c))) (\<lambda>_.
     seq (broadcast_queue e) (\<lambda>_.
     ret \<lparr>img_caseId = case_id c, img_filename = image_filename io,
          predicted_label = label, img_is_fake = is_fake,
          img_confidence = py_round conf 2, img_verdict = verdict c',
          img_explanation = expl\<rparr>)))))))))))"

definition image_except :: "env \<Rightarrow> Case \<Rightarrow> exn \<Rightarrow> image_result prog" where
  "image_except e c ex =
     seq (db_commit (c\<lparr>status := failed, verdict := ''Analysis Failed'',
                       explanation := Some (str_exn ex)\<rparr>)) (\<lambda>_.
     seq (on_queue (remove_item (case_id c))) (\<lambda>_.
     seq (broadcast_queue e) (\<lambda>_.
     raise (HTTPException 500 (''Image analysis failed: '' @ str_exn ex)))))"

definition detect_image_manipulation :: "env \<Rightarrow> image_io \<Rightarrow> image_result prog" where
  "detect_image_manipulation e io =
     (if \<not> endswith (lower (image_filename io)) [''.png'', ''.jpg'', ''.jpeg'', ''.bmp'', ''.webp'']
      then raise (HTTPException 400 ''Invalid image format. Supported: png, jpg, jpeg, bmp, webp'')
      else
        let c = new_case e MT_image (image_filename io) in
        seq (db_add_commit c) (\<lambda>_.
        seq (on_queue (add_item (new_queue_item c ''image''))) (\<lambda>_.
        seq (broadcast_queue e) (\<lambda>_.
        try_except (image_try e io c) (image_except e c)))))"

section \<open>Audio endpoint\<close>

record audio_upload =
  audio_filename :: string
  read_outcome :: "string + unit"
  load_outcome :: "string + unit"

record audio_io =
  audio_files :: "audio_upload list"
  speaker_outcome :: "string + rat"
  uniform_05_098 :: rat

record audio_result =
  aud_caseId :: string
  similarity_score :: rat
  is_same_speaker :: bool
  threshold :: rat
  aud_confidence :: rat
  aud_verdict :: string
  aud_explanation :: string

fun load_audio_files :: "env \<Rightarrow> string \<Rightarrow> audio_upload list \<Rightarrow> nat \<Rightarrow> unit prog" where
  \<comment> \<open>the loop \<open>for audio in audio_files\<close>; the last argument is \<open>len(arrays)\<close>\<close>
  "load_audio_files e cid [] n = ret ()"
| "load_audio_files e cid (audio # rest) n =
     (if \<not> endswith (lower (audio_filename audio)) [''.wav'', ''.mp3'', ''.m4a'', ''.ogg'', ''.flac'']
      then raise (HTTPException 400 (''Unsupported audio format: '' @ audio_filename audio))
      else
        seq (call (read_outcome audio)) (\<lambda>_.
        seq (on_queue (update_item cid (20 + int n * 15) ''preprocessing'')) (\<lambda>_.
        seq (broadcast_queue e) (\<lambda>_.
        seq (call (load_outcome audio)) (\<lambda>_.
        load_audio_files e cid rest (Suc n))))))"

definition compare_speakers :: "env \<Rightarrow> audio_io \<Rightarrow> string + rat" where
  \<comment> \<open>the outcome of computing \<open>similarity\<close>: the cosine similarity of the two
      embeddings (or the exception of the models), or the mock draw\<close>
  "compare_speakers e io =
     (if models_loaded e then speaker_outcome io else Inr (uniform_05_098 io))"

definition audio_try :: "env \<Rightarrow> audio_io \<Rightarrow> Case \<Rightarrow> audio_result prog" where
  "audio_try e io c =
     seq (load_audio_files e (case_id c) (audio_files io) 0) (\<lambda>_.
     seq (on_queue (update_item (case_id c) 50 ''analyzing'')) (\<lambda>_.
     seq (broadcast_queue e) (\<lambda>_.
     seq (call (compare_speakers e io)) (\<lambda>similarity.
     let thr = 86 / 100;
         is_same = (thr \<le> similarity);
         conf = similarity * 100 in
     seq (on_queue (update_item (case_id c) 80 ''llm_explaining'')) (\<lambda>_.
     seq (broadcast_queue e) (\<lambda>_.
     let expl = generate_explanation is_same conf ''audio'';
         c' = c\<lparr>status := completed,
                confidence := py_round conf 1,
                verdict := (if is_same then ''Same Speaker'' else ''Different Speakers'') @
                           '' ('' @ format_f 0 conf @ ''% similarity)'',
                voice_score := Some (py_round conf 1),
                explanation := Some expl,
                completed_at := Some (utcnow_completed e),
                processing_time_ms := Some (elapsed_ms e)\<rparr> in
     seq (db_commit c') (\<lambda>_.
     seq (on_queue (remove_item (case_id c))) (\<lambda>_.
     seq (broadcast_queue e) (\<lambda>_.
     ret \<lparr>aud_caseId = case_id c, similarity_score = py_round similarity 4,
          is_same_speaker = is_same, threshold = thr,
          aud_confidence = py_round conf 2, aud_verdict = verdict c',
          aud_explanation = expl\<rparr>)))))))))"

definition audio_except :: "env \<Rightarrow> Case \<Rightarrow> exn \<Rightarrow> audio_result prog" where
  "audio_except e c ex =
     seq (db_commit (c\<lparr>status := failed, verdict := ''Analysis Failed''\<rparr>)) (\<lambda>_.
     seq (on_queue (remove_item (case_id c))) (\<lambda>_.
     seq (broadcast_queue e) (\<lambda>_.
     raise (HTTPException 500 (''Audio analysis failed: '' @ str_exn ex)))))"

definition detect_audio_manipulation :: "env \<Rightarrow> audio_io \<Rightarrow> audio_result prog" where
  "detect_audio_manipulation e io =
     (if length (audio_files io) \<noteq> 2
      then raise (HTTPException 400 ''Exactly 2 audio files required for speaker verification'')
      else
        let c = new_case e MT_audio
                  (audio_filename (audio_files io ! 0) @ '' vs '' @
                   audio_filename (audio_files io ! 1)) in
        seq (db_add_commit c) (\<lambda>_.
        seq (on_queue (add_item (new_queue_item c ''audio''))) (\<lambda>_.
        seq (broadcast_queue e) (\<lambda>_.
        try_except (audio_try e io c) (audio_except e c)))))"

section \<open>Video endpoint\<close>

text \<open>
  A decoded frame is an opaque number. \<open>cap_read\<close> gives the frame decoded at a position
  (\<open>None\<close> when \<open>cap.read()\<close> reports failure), \<open>vit_frame\<close> the classifier's outcome on
  a frame, and the \<open>frame_*\<close> fields the random draws of the mock loop by iteration.
\<close>

record video_io =
  video_filename :: string
  copy_outcome :: "string + unit"
  frame_count :: int
  fps :: rat
  cap_read :: "int \<Rightarrow> nat option"
  vit_frame :: "nat \<Rightarrow> string + (string \<times> rat)"
  frame_random :: "nat \<Rightarrow> rat"
  frame_uniform_60_95 :: "nat \<Rightarrow> rat"
  frame_uniform_10_40 :: "nat \<Rightarrow> rat"
  uniform_70_90 :: rat
  uniform_m8_8 :: rat
  uniform_m10_5 :: rat
  uniform_m5_10 :: rat

record video_result =
  vid_caseId :: string
  vid_filename :: string
  duration_sec :: rat
  frames_analyzed :: nat
  vid_is_fake :: bool
  vid_confidence :: rat
  vid_verdict :: string
  vid_explanation :: string
  frame_details :: "(string \<times> rat) list"

definition frame_indices :: "int \<Rightarrow> int list" where
  \<comment> \<open>\<open>np.linspace(0, max(total-1, 0), 8, dtype=int)\<close>: eight points with step
      \<open>stop / 7\<close>, truncated\<close>
  "frame_indices total_frames =
     map (\<lambda>i. py_int (of_nat i * (of_int (max (total_frames - 1) 0) / 7))) [0..<8]"

fun read_frames :: "(int \<Rightarrow> nat option) \<Rightarrow> int list \<Rightarrow> nat list" where
  "read_frames rd [] = []"
| "read_frames rd (i # rest) =
     (case rd i of Some frame \<Rightarrow> frame # read_frames rd rest | None \<Rightarrow> read_frames rd rest)"

fun analyze_frames ::
  "env \<Rightarrow> video_io \<Rightarrow> string \<Rightarrow> nat \<Rightarrow> nat \<Rightarrow> nat list \<Rightarrow> (string \<times> rat) list \<Rightarrow> rat list \<Rightarrow>
   ((string \<times> rat) list \<times> rat list) prog" where
  \<comment> \<open>\<open>for idx, frame in enumerate(frames)\<close> with the models; \<open>n\<close> is \<open>len(frames)\<close>\<close>
  "analyze_frames e io cid n idx [] results fake_confidences = ret (results, fake_confidences)"
| "analyze_frames e io cid n idx (frame # rest) results fake_confidences =
     seq (call (vit_frame io frame)) (\<lambda>(label, conf).
     let results' = results @ [(label, conf)];
         fake_confidences' = (if lower label \<in> set [''fake'', ''deepfake'']
                              then fake_confidences @ [conf] else fake_confidences) in
     seq (truediv (of_nat idx) (of_nat n)) (\<lambda>q.
     seq (on_queue (update_item cid (30 + py_int (q * 40)) ''analyzing'')) (\<lambda>_.
     seq (broadcast_queue e) (\<lambda>_.
     analyze_frames e io cid n (Suc idx) rest results' fake_confidences'))))"

fun mock_frames ::
  "video_io \<Rightarrow> nat \<Rightarrow> nat list \<Rightarrow> (string \<times> rat) list \<Rightarrow> rat list \<Rightarrow>
   (string \<times> rat) list \<times> rat list" where
  \<comment> \<open>\<open>for _ in frames\<close> without the models; \<open>k\<close> counts the iterations\<close>
  "mock_frames io k [] results fake_confidences = (results, fake_confidences)"
| "mock_frames io k (frame # rest) results fake_confidences =
     (let is_fake = (4 / 10 < frame_random io k);
          conf = (if is_fake then frame_uniform_60_95 io k else frame_uniform_10_40 io k);
          label = (if is_fake then ''Fake'' else ''Real'')
      in mock_frames io (Suc k) rest (results @ [(label, conf)])
           (if is_fake then fake_confidences @ [conf] else fake_confidences))"

definition mean :: "rat list \<Rightarrow> rat" where
  "mean xs = sum_list xs / of_nat (length xs)"

definition video_try :: "env \<Rightarrow> video_io \<Rightarrow> Case \<Rightarrow> video_result prog" where
  "video_try e io c =
     seq (call (copy_outcome io)) (\<lambda>_.
     seq (on_queue (update_item (case_id c) 15 ''preprocessing'')) (\<lambda>_.
     seq (broadcast_queue e) (\<lambda>_.
     let total_frames = frame_count io in
     seq (if 0 < fps io then truediv (of_int total_frames) (fps io) else ret 0) (\<lambda>duration.
     let frames = read_frames (cap_read io) (frame_indices total_frames) in
     seq (on_queue (update_item (case_id c) 30 ''analyzing'')) (\<lambda>_.
     seq (broadcast_queue e) (\<lambda>_.
     seq (if models_loaded e
          then analyze_frames e io (case_id c) (length frames) 0 frames [] []
          else ret (mock_frames io 0 frames [] [])) (\<lambda>(results, fake_confidences).
     let avg_fake_conf = (if fake_confidences \<noteq> [] then mean fake_confidences else 0);
         is_fake = (60 < avg_fake_conf);
         conf = (if is_fake then avg_fake_conf
                 else if 0 < avg_fake_conf then 100 - avg_fake_conf else uniform_70_90 io) in
     seq (on_queue (update_item (case_id c) 80 ''llm_explaining'')) (\<lambda>_.
     seq (broadcast_queue e) (\<lambda>_.
     let expl = generate_explanation is_fake conf ''video'';
         c' = c\<lparr>status := completed,
                confidence := py_round conf 1,
                verdict := format_f 0 conf @ ''% Likely '' @
                           (if is_fake then ''Manipulated'' else ''Authentic''),
                face_score := Some (py_round (conf + uniform_m8_8 io) 1),
                voice_score := Some (py_round (conf + uniform_m10_5 io) 1),
                lipsync_score := Some (py_round (conf + uniform_m5_10 io) 1),
                explanation := Some expl,
                completed_at := Some (utcnow_completed e),
                processing_time_ms := Some (elapsed_ms e)\<rparr> in
     seq (db_commit c') (\<lambda>_.
     seq (on_queue (remove_item (case_id c))) (\<lambda>_.
     seq (broadcast_queue e) (\<lambda>_.
     ret \<lparr>vid_caseId = case_id c, vid_filename = video_filename io,
          duration_sec = py_round duration 2, frames_analyzed = length frames,
          vid_is_fake = is_fake, vid_confidence = py_round conf 2,
          vid_verdict = verdict c', vid_explanation = expl,
          frame_details = results\<rparr>))))))))))))"

definition video_except :: "env \<Rightarrow> Case \<Rightarrow> exn \<Rightarrow> video_result prog" where
  "video_except e c ex =
     seq (db_commit (c\<lparr>status := failed, verdict := ''Analysis Failed''\<rparr>)) (\<lambda>_.
     seq (on_queue (remove_item (case_id c))) (\<lambda>_.
     seq (broadcast_queue e) (\<lambda>_.
     raise (HTTPException 500 (''Video processing failed: '' @ str_exn ex)))))"

definition detect_video_manipulation :: "env \<Rightarrow> video_io \<Rightarrow> video_result prog" where
  "detect_video_manipulation e io =
     (if \<not> endswith (lower (video_filename io)) [''.mp4'', ''.mov'', ''.avi'', ''.mkv'', ''.webm'']
      then raise (HTTPException 400 ''Invalid video format. Supported: mp4, mov, avi, mkv, webm'')
      else
        let c = new_case e MT_video (video_filename io) in
        seq (db_add_commit c) (\<lambda>_.
        seq (on_queue (add_item (new_queue_item c ''video''))) (\<lambda>_.
        seq (broadcast_queue e) (\<lambda>_.
        try_except (video_try e io c) (video_except e c)))))"

section \<open>Sample inputs\<close>

definition sample_item :: "string \<Rightarrow> int \<Rightarrow> queue_item" where
  "sample_item i p =
     \<lparr>item_id = i, mediaType = ''image'', submittedAt = 0, progress = p,
      item_status = ''preprocessing'', workerId = ''worker-1''\<rparr>"

definition socket_2_fails :: "WebSocket \<Rightarrow> bool" where
  "socket_2_fails c = (c = 2)"

definition sample_world :: "WebSocket list \<Rightarrow> queue_item list \<Rightarrow> world" where
  "sample_world conns items =
     \<lparr>queue_manager = \<lparr>active_connections = conns, queue_items = items\<rparr>, db = [], outbox = []\<rparr>"

definition sample_env :: env where
  "sample_env =
     \<lparr>send_fails = socket_2_fails, uuid_hex8 = ''0a1b2c3d'', randint_1_5 = 3,
      utcnow_submitted = 1000, utcnow_completed = 1250, elapsed_ms = 250,
      models_loaded = True\<rparr>"

definition sample_image_io :: image_io where
  "sample_image_io =
     \<lparr>image_filename = ''photo.JPG'', open_outcome = Inr (),
      vit_outcome = Inr (''Fake'', 912 / 10), random_random = 1 / 2,
      uniform_60_95 = 80, uniform_10_40 = 20, uniform_m5_5 = 1, uniform_0_10 = 2\<rparr>"

definition sample_audio_io :: "string \<Rightarrow> rat \<Rightarrow> audio_io" where
  "sample_audio_io second_name s =
     \<lparr>audio_files =
        [\<lparr>audio_filename = ''a.wav'', read_outcome = Inr (), load_outcome = Inr ()\<rparr>,
         \<lparr>audio_filename = second_name, read_outcome = Inr (), load_outcome = Inr ()\<rparr>],
      speaker_outcome = Inr s, uniform_05_098 = 7 / 10\<rparr>"

definition sample_frame_label :: "nat \<Rightarrow> string + (string \<times> rat)" where
  "sample_frame_label frame = (if even frame then Inr (''Fake'', 90) else Inr (''Real'', 75))"

definition sample_cap_read :: "int \<Rightarrow> int \<Rightarrow> nat option" where
  "sample_cap_read total_frames i = (if i < total_frames then Some (nat i) else None)"

definition sample_draw :: "nat \<Rightarrow> rat" where
  "sample_draw k = 1 / 2"

definition sample_video_io :: "int \<Rightarrow> video_io" where
  "sample_video_io total_frames =
     \<lparr>video_filename = ''clip.mp4'', copy_outcome = Inr (), frame_count = total_frames,
      fps = 0, cap_read = sample_cap_read total_frames, vit_frame = sample_frame_label,
      frame_random = sample_draw, frame_uniform_60_95 = sample_draw,
      frame_uniform_10_40 = sample_draw, uniform_70_90 = 80,
      uniform_m8_8 = 0, uniform_m10_5 = 0, uniform_m5_10 = 0\<rparr>"

definition first_frame_only :: "int \<Rightarrow> nat option" where
  "first_frame_only i = (if i = 0 then Some 1 else None)"

definition real_video_io :: video_io where
  "real_video_io = (sample_video_io 100)\<lparr>cap_read := first_frame_only\<rparr>"

definition broken_image_io :: image_io where
  "broken_image_io = sample_image_io\<lparr>open_outcome := Inl ''cannot identify image file''\<rparr>"

definition broken_video_io :: video_io where
  "broken_video_io = (sample_video_io 0)\<lparr>copy_outcome := Inl ''disk full''\<rparr>"

definition one_file_io :: audio_io where
  "one_file_io =
     \<lparr>audio_files = [\<lparr>audio_filename = ''a.wav'', read_outcome = Inr (), load_outcome = Inr ()\<rparr>],
      speaker_outcome = Inr (9 / 10), uniform_05_098 = 7 / 10\<rparr>"

section \<open>Observations and assertions\<close>

text \<open>
  What a subscriber sees of one job: the progress values of the entries with the job's
  ID, read off the snapshots delivered to the socket, in the order of delivery.
\<close>

definition job_progress :: "string \<Rightarrow> queue_item list \<Rightarrow> int list" where
  "job_progress cid snap = map progress (filter (\<lambda>i. item_id i = cid) snap)"

definition progress_seen :: "WebSocket \<Rightarrow> string \<Rightarrow> (WebSocket \<times> queue_item list) list \<Rightarrow> int list" where
  "progress_seen c cid msgs =
     concat (map (\<lambda>(c', snap). if c' = c then job_progress cid snap else []) msgs)"

text \<open>
  What a video response says about its frames: a frame is flagged fake when its label,
  in lower case, is \<open>fake\<close> or \<open>deepfake\<close>, and the mean fake confidence is the mean
  of the confidences of the flagged frames, 0 when there is none.
\<close>

definition flagged_fake :: "string \<times> rat \<Rightarrow> bool" where
  "flagged_fake detail = (lower (fst detail) \<in> set [''fake'', ''deepfake''])"

definition mean_fake_confidence :: "(string \<times> rat) list \<Rightarrow> rat" where
  "mean_fake_confidence details =
     (let fake_confidences = map snd (filter flagged_fake details)
      in if fake_confidences \<noteq> [] then mean fake_confidences else 0)"

text \<open>
  Assertions for reasoning about a statement sequence: \<open>wp m Q E w\<close> holds when running
  \<open>m\<close> from \<open>w\<close> ends in a state satisfying \<open>Q\<close> with the value returned, or \<open>E\<close>
  with the exception raised. \<open>tracking\<close> says that the job's entry is in the queue
  with a progress of at most \<open>hi\<close>, and that what the socket has seen after the first
  \<open>k\<close> messages is non-decreasing and below the entry's progress; \<open>finished\<close> keeps
  the part about what was seen.
\<close>

definition wp :: "'a prog \<Rightarrow> ('a \<Rightarrow> world \<Rightarrow> bool) \<Rightarrow> (exn \<Rightarrow> world \<Rightarrow> bool) \<Rightarrow> world \<Rightarrow> bool" where
  "wp m Q E w = (case m w of (Inl ex, w') \<Rightarrow> E ex w' | (Inr a, w') \<Rightarrow> Q a w')"

definition tracking :: "WebSocket \<Rightarrow> string \<Rightarrow> nat \<Rightarrow> int \<Rightarrow> world \<Rightarrow> bool" where
  "tracking c cid k hi w =
     (k \<le> length (outbox w) \<and> sorted (progress_seen c cid (drop k (outbox w))) \<and>
      (\<exists>p. job_progress cid (queue_items (queue_manager w)) = [p] \<and> 0 \<le> p \<and> p \<le> hi \<and>
           (\<forall>x\<in>set (progress_seen c cid (drop k (outbox w))). 0 \<le> x \<and> x \<le> p)))"

definition finished :: "WebSocket \<Rightarrow> string \<Rightarrow> nat \<Rightarrow> int \<Rightarrow> world \<Rightarrow> bool" where
  "finished c cid k hi w =
     (k \<le> length (outbox w) \<and> sorted (progress_seen c cid (drop k (outbox w))) \<and>
      (\<forall>x\<in>set (progress_seen c cid (drop k (outbox w))). 0 \<le> x \<and> x \<le> hi))"

section \<open>Broadcast\<close>

lemma broadcast_loop_run:
  "broadcast_loop fails conns data w =
     (Inr (), w\<lparr>outbox := outbox w @ map (\<lambda>c. (c, data)) (filter (\<lambda>c. \<not> fails c) conns)\<rparr>)"
  by (induction conns arbitrary: w)
     (simp_all add: ret_def seq_def try_except_def send_json_def)

lemma broadcast_run:
  "broadcast fails data w =
     (Inr (), w\<lparr>queue_manager := (queue_manager w)\<lparr>queue_items := data\<rparr>,
               outbox := outbox w @
                 map (\<lambda>c. (c, data)) (filter (\<lambda>c. \<not> fails c) (active_connections (queue_manager w)))\<rparr>)"
  by (simp add: broadcast_def seq_def on_queue_def modify_def broadcast_loop_run)

text \<open>
  C1 (as the code has it). A broadcast never raises to its caller, whichever sockets
  fail; it delivers the snapshot once to every subscriber whose socket does not fail,
  in the order of the subscriber list; and it leaves the subscriber list as it was, so
  a failing subscriber stays subscribed.
\<close>

theorem broadcast_isolates_failures:
  "fst (broadcast fails data w) = Inr () \<and>
   outbox (snd (broadcast fails data w)) =
     outbox w @ map (\<lambda>c. (c, data)) (filter (\<lambda>c. \<not> fails c) (active_connections (queue_manager w))) \<and>
   active_connections (queue_manager (snd (broadcast fails data w))) =
     active_connections (queue_manager w) \<and>
   queue_items (queue_manager (snd (broadcast fails data w))) = data"
  by (simp add: broadcast_run)

text \<open>
  C1 as stated fails: with three subscribers of which the second one's socket raises,
  the other two receive the snapshot, and the second one is still in the subscriber
  list afterwards.
\<close>

theorem broadcast_keeps_failing_subscriber:
  "outbox (snd (broadcast socket_2_fails [sample_item ''case-1'' 30]
       (sample_world [1, 2, 3] [sample_item ''case-1'' 30]))) =
     [(1, [sample_item ''case-1'' 30]), (3, [sample_item ''case-1'' 30])] \<and>
   2 \<in> set (active_connections (queue_manager (snd (broadcast socket_2_fails
       [sample_item ''case-1'' 30] (sample_world [1, 2, 3] [sample_item ''case-1'' 30])))))"
  by (simp add: broadcast_run sample_world_def socket_2_fails_def)

section \<open>Registration\<close>

text \<open>
  C6 (as the code has it). \<open>add_item\<close> appends the entry at the end of the list whatever
  the list holds and changes nothing else; the IDs are pairwise distinct afterwards
  exactly when they were before and the new ID was not among them.
\<close>

theorem add_item_appends:
  "queue_items (add_item item self) = queue_items self @ [item] \<and>
   active_connections (add_item item self) = active_connections self \<and>
   distinct (map item_id (queue_items (add_item item self))) =
     (distinct (map item_id (queue_items self)) \<and> item_id item \<notin> item_id ` set (queue_items self))"
  by (auto simp: add_item_def)

text \<open>
  C6 as stated fails: registering an entry whose ID is already present succeeds, and the
  list then holds two entries with that ID.
\<close>

theorem add_item_duplicate_id:
  "queue_items (add_item (sample_item ''case-1'' 0)
       \<lparr>active_connections = [], queue_items = [sample_item ''case-1'' 70]\<rparr>) =
     [sample_item ''case-1'' 70, sample_item ''case-1'' 0] \<and>
   \<not> distinct (map item_id (queue_items (add_item (sample_item ''case-1'' 0)
       \<lparr>active_connections = [], queue_items = [sample_item ''case-1'' 70]\<rparr>)))"
  by (simp add: add_item_def sample_item_def)

section \<open>Rules for statement sequences\<close>

lemma wp_ret [simp]: "wp (ret a) Q E = Q a"
  by (rule ext) (simp add: wp_def ret_def)

lemma wp_raise [simp]: "wp (raise ex) Q E = E ex"
  by (rule ext) (simp add: wp_def raise_def)

lemma wp_seq [simp]: "wp (seq m k) Q E = wp m (\<lambda>a. wp (k a) Q E) E"
  by (rule ext) (simp add: wp_def seq_def split: prod.splits sum.splits)

lemma wp_try_except [simp]: "wp (try_except m h) Q E = wp m Q (\<lambda>ex. wp (h ex) Q E)"
  by (rule ext) (simp add: wp_def try_except_def split: prod.splits sum.splits)

lemma wp_modify [simp]: "wp (modify f) Q E = (\<lambda>w. Q () (f w))"
  by (rule ext) (simp add: wp_def modify_def)

lemma wp_on_queue:
  "wp (on_queue f) Q E = (\<lambda>w. Q () (w\<lparr>queue_manager := f (queue_manager w)\<rparr>))"
  by (simp add: on_queue_def)

lemma wp_db_add_commit [simp]: "wp (db_add_commit c) Q E = (\<lambda>w. Q () (w\<lparr>db := db w @ [c]\<rparr>))"
  by (simp add: db_add_commit_def)

lemma wp_db_commit [simp]:
  "wp (db_commit c) Q E =
     (\<lambda>w. Q () (w\<lparr>db := map (\<lambda>r. if case_id r = case_id c then c else r) (db w)\<rparr>))"
  by (simp add: db_commit_def)

lemma wp_call [simp]:
  "wp (call outcome) Q E = (case outcome of Inl msg \<Rightarrow> E (Exception msg) | Inr a \<Rightarrow> Q a)"
  by (simp add: call_def split: sum.splits)

lemma wp_truediv [simp]:
  "wp (truediv a b) Q E = (if b = 0 then E ZeroDivisionError else Q (a / b))"
  by (simp add: truediv_def)

lemma wp_broadcast_queue:
  "wp (broadcast_queue e) Q E =
     (\<lambda>w. Q () (w\<lparr>outbox := outbox w @
              map (\<lambda>c. (c, queue_items (queue_manager w)))
                (filter (\<lambda>c. \<not> send_fails e c) (active_connections (queue_manager w)))\<rparr>))"
  by (rule ext) (simp add: wp_def broadcast_queue_def broadcast_run)

lemmas wp_queue = wp_on_queue wp_broadcast_queue

lemma wp_if [simp]:
  "wp (if b then m1 else m2) Q E = (if b then wp m1 Q E else wp m2 Q E)"
  by simp

lemma wp_mono:
  "wp m Q E w \<Longrightarrow> (\<And>a w'. Q a w' \<Longrightarrow> Q' a w') \<Longrightarrow> (\<And>ex w'. E ex w' \<Longrightarrow> E' ex w') \<Longrightarrow> wp m Q' E' w"
  by (auto simp: wp_def split: prod.splits sum.splits)

lemma wp_conj:
  "wp m Q E w \<Longrightarrow> wp m Q' E' w \<Longrightarrow> wp m (\<lambda>a w'. Q a w' \<and> Q' a w') (\<lambda>ex w'. E ex w' \<and> E' ex w') w"
  by (auto simp: wp_def split: prod.splits sum.splits)

lemma wp_InrD: "wp m Q E w \<Longrightarrow> fst (m w) = Inr a \<Longrightarrow> Q a (snd (m w))"
  by (cases "m w") (auto simp: wp_def)

lemma wp_InlD: "wp m Q E w \<Longrightarrow> fst (m w) = Inl ex \<Longrightarrow> E ex (snd (m w))"
  by (cases "m w") (auto simp: wp_def)

lemma wp_snd: "wp m (\<lambda>_. P) (\<lambda>_. P) w \<Longrightarrow> P (snd (m w))"
  by (cases "m w") (auto simp: wp_def split: sum.splits)

lemma wp_snd_Inr: "wp m (\<lambda>_. P) (\<lambda>_ _. False) w \<Longrightarrow> P (snd (m w))"
  by (cases "m w") (auto simp: wp_def split: sum.splits)

text \<open>Facts for running an endpoint on the sample inputs.\<close>

lemma photo_name_ok:
  "endswith (lower ''photo.JPG'') [''.png'', ''.jpg'', ''.jpeg'', ''.bmp'', ''.webp'']"
  by code_simp

lemma fake_flagged: "lower ''Fake'' = ''fake''"
  by code_simp

lemmas run_simps =
  wp_queue Let_def new_case_def new_queue_item_def add_item_def update_item_def remove_item_def
  sample_env_def sample_world_def socket_2_fails_def

section \<open>Progress seen by a subscriber\<close>

lemma job_progress_append:
  "job_progress cid (xs @ ys) = job_progress cid xs @ job_progress cid ys"
  by (simp add: job_progress_def)

lemma job_progress_fresh:
  "cid \<notin> item_id ` set items \<Longrightarrow> job_progress cid items = []"
  by (induction items) (auto simp: job_progress_def)

lemma job_progress_update_first:
  "job_progress cid (update_first cid p s items) =
     (case job_progress cid items of [] \<Rightarrow> [] | x # xs \<Rightarrow> p # xs)"
  by (induction items) (auto simp: job_progress_def)

lemma job_progress_removed:
  "job_progress cid (filter (\<lambda>i. item_id i \<noteq> cid) items) = []"
  by (induction items) (auto simp: job_progress_def)

lemma progress_seen_append:
  "progress_seen c cid (xs @ ys) = progress_seen c cid xs @ progress_seen c cid ys"
  by (simp add: progress_seen_def)

lemma progress_seen_block:
  "progress_seen c cid (map (\<lambda>c'. (c', snap)) cs) =
     concat (replicate (length (filter (\<lambda>c'. c' = c) cs)) (job_progress cid snap))"
  by (induction cs) (simp_all add: progress_seen_def)

lemma concat_replicate_Nil: "concat (replicate n []) = []"
  by (induction n) simp_all

lemma concat_replicate_single: "concat (replicate n [x]) = replicate n x"
  by (induction n) simp_all

lemma progress_seen_block_empty:
  "job_progress cid snap = [] \<Longrightarrow> progress_seen c cid (map (\<lambda>c'. (c', snap)) cs) = []"
  by (simp only: progress_seen_block concat_replicate_Nil)

lemma progress_seen_block_single:
  "job_progress cid snap = [p] \<Longrightarrow>
   progress_seen c cid (map (\<lambda>c'. (c', snap)) cs) = replicate (length (filter (\<lambda>c'. c' = c) cs)) p"
  by (simp only: progress_seen_block concat_replicate_single)

lemma tracking_mono: "tracking c cid k hi w \<Longrightarrow> hi \<le> hi' \<Longrightarrow> tracking c cid k hi' w"
  by (auto simp: tracking_def)

lemma tracking_db [simp]: "tracking c cid k hi (w\<lparr>db := d\<rparr>) = tracking c cid k hi w"
  by (simp add: tracking_def)

lemma finished_db [simp]: "finished c cid k hi (w\<lparr>db := d\<rparr>) = finished c cid k hi w"
  by (simp add: finished_def)

lemma finished_start: "finished c cid (length (outbox w)) hi w"
  by (simp add: finished_def progress_seen_def)

lemma register_step:
  assumes fresh: "cid \<notin> item_id ` set (queue_items (queue_manager w))"
    and item: "item_id item = cid" "progress item = 0"
    and k: "k = length (outbox w)"
    and cont: "\<And>w'. tracking c cid k 0 w' \<Longrightarrow> Q w'"
  shows "wp (on_queue (add_item item)) (\<lambda>_. wp (broadcast_queue e) (\<lambda>_. Q) E2) E1 w"
proof -
  have jp: "job_progress cid (queue_items (queue_manager w) @ [item]) = [0]"
    using fresh item by (simp add: job_progress_append job_progress_fresh) (simp add: job_progress_def)
  have "tracking c cid k 0
          (w\<lparr>queue_manager := add_item item (queue_manager w),
             outbox := outbox w @
               map (\<lambda>c'. (c', queue_items (add_item item (queue_manager w))))
                 (filter (\<lambda>c'. \<not> send_fails e c')
                   (active_connections (add_item item (queue_manager w))))\<rparr>)"
    unfolding tracking_def
    by (simp add: add_item_def k jp progress_seen_block_single [OF jp])
  then show ?thesis
    by (simp add: wp_queue cont)
qed

lemma sorted_snoc_replicate:
  "sorted xs \<Longrightarrow> \<forall>x\<in>set xs. x \<le> p \<Longrightarrow> sorted (xs @ replicate n (p::int))"
  by (simp add: sorted_append)

lemma stage_step:
  assumes inv: "tracking c cid k hi w"
    and le: "hi \<le> p'"
    and cont: "\<And>w'. tracking c cid k p' w' \<Longrightarrow> Q w'"
  shows "wp (on_queue (update_item cid p' s)) (\<lambda>_. wp (broadcast_queue e) (\<lambda>_. Q) E2) E1 w"
proof -
  from inv obtain p where p: "job_progress cid (queue_items (queue_manager w)) = [p]"
    "0 \<le> p" "p \<le> hi" "\<forall>x\<in>set (progress_seen c cid (drop k (outbox w))). 0 \<le> x \<and> x \<le> p"
    and k: "k \<le> length (outbox w)" and srt: "sorted (progress_seen c cid (drop k (outbox w)))"
    by (auto simp: tracking_def)
  have jp: "job_progress cid (update_first cid p' s (queue_items (queue_manager w))) = [p']"
    by (simp add: job_progress_update_first p)
  have below: "\<forall>x\<in>set (progress_seen c cid (drop k (outbox w))). 0 \<le> x \<and> x \<le> p'"
    using p le by fastforce
  have "tracking c cid k p'
          (w\<lparr>queue_manager := update_item cid p' s (queue_manager w),
             outbox := outbox w @
               map (\<lambda>c'. (c', queue_items (update_item cid p' s (queue_manager w))))
                 (filter (\<lambda>c'. \<not> send_fails e c')
                   (active_connections (update_item cid p' s (queue_manager w))))\<rparr>)"
    unfolding tracking_def
    using k srt below p(2,3) le
    by (auto simp: update_item_def jp progress_seen_append progress_seen_block_single [OF jp]
        sorted_snoc_replicate)
  then show ?thesis
    by (simp add: wp_queue cont)
qed

lemma remove_step:
  assumes inv: "tracking c cid k hi w"
    and cont: "\<And>w'. finished c cid k hi w' \<Longrightarrow> Q w'"
  shows "wp (on_queue (remove_item cid)) (\<lambda>_. wp (broadcast_queue e) (\<lambda>_. Q) E2) E1 w"
proof -
  from inv obtain p where p: "job_progress cid (queue_items (queue_manager w)) = [p]"
    "0 \<le> p" "p \<le> hi" "\<forall>x\<in>set (progress_seen c cid (drop k (outbox w))). 0 \<le> x \<and> x \<le> p"
    and k: "k \<le> length (outbox w)" and srt: "sorted (progress_seen c cid (drop k (outbox w)))"
    by (auto simp: tracking_def)
  have below: "\<forall>x\<in>set (progress_seen c cid (drop k (outbox w))). 0 \<le> x \<and> x \<le> hi"
    using p by fastforce
  have "finished c cid k hi
          (w\<lparr>queue_manager := remove_item cid (queue_manager w),
             outbox := outbox w @
               map (\<lambda>c'. (c', queue_items (remove_item cid (queue_manager w))))
                 (filter (\<lambda>c'. \<not> send_fails e c')
                   (active_connections (remove_item cid (queue_manager w))))\<rparr>)"
    unfolding finished_def
    using k srt below
    by (simp add: remove_item_def progress_seen_append
        progress_seen_block_empty [OF job_progress_removed])
  then show ?thesis
    by (simp add: wp_queue cont)
qed

lemma call_step:
  "(\<And>a. Q a w) \<Longrightarrow> (\<And>ex. E ex w) \<Longrightarrow> wp (call outcome) Q E w"
  by (simp split: sum.splits)

lemma classify_image_step:
  "(\<And>a. Q a w) \<Longrightarrow> (\<And>ex. E ex w) \<Longrightarrow> wp (classify_image e io) Q E w"
  by (simp add: classify_image_def Let_def split_def split: sum.splits)

lemma db_commit_step:
  "Q () (w\<lparr>db := map (\<lambda>r. if case_id r = case_id x then x else r) (db w)\<rparr>) \<Longrightarrow>
   wp (db_commit x) Q E w"
  by simp

lemma image_try_tracking:
  assumes cid: "case_id cs = cid" and inv: "tracking c cid k 0 w"
  shows "wp (image_try e io cs) (\<lambda>_. finished c cid k 90) (\<lambda>_. tracking c cid k 90) w"
  using inv
  unfolding image_try_def Let_def split_def cid
  apply (simp only: wp_seq wp_ret)
  apply (rule call_step)
  apply (rule stage_step, assumption, simp)
  apply (rule classify_image_step)
  apply (rule stage_step, assumption, simp)
  apply (rule stage_step, assumption, simp)
  apply (rule db_commit_step)
  apply (rule remove_step)
  apply (simp only: tracking_db)
  apply assumption
  apply (erule tracking_mono, simp)+
  done

lemma image_except_tracking:
  assumes cid: "case_id cs = cid" and inv: "tracking c cid k 90 w"
  shows "wp (image_except e cs ex) Q (\<lambda>_. finished c cid k 90) w"
  using inv
  unfolding image_except_def cid
  apply (simp only: wp_seq wp_raise)
  apply (rule db_commit_step)
  apply (rule remove_step)
   apply (simp only: tracking_db)
  apply assumption
  done

lemma case_id_new_case [simp]: "case_id (new_case e mt fname) = ''case-'' @ uuid_hex8 e"
  by (simp add: new_case_def)

lemma db_add_commit_step:
  "Q () (w\<lparr>db := db w @ [x]\<rparr>) \<Longrightarrow> wp (db_add_commit x) Q E w"
  by simp

lemma guard_step:
  "(b \<Longrightarrow> wp m1 Q E w) \<Longrightarrow> (\<not> b \<Longrightarrow> wp m2 Q E w) \<Longrightarrow> wp (if b then m1 else m2) Q E w"
  by simp

lemma raise_step: "E ex w \<Longrightarrow> wp (raise ex) Q E w"
  by simp

lemma detect_image_tracking:
  assumes fresh: "''case-'' @ uuid_hex8 e \<notin> item_id ` set (queue_items (queue_manager w))"
  shows "wp (detect_image_manipulation e io)
           (\<lambda>_. finished c (''case-'' @ uuid_hex8 e) (length (outbox w)) 90)
           (\<lambda>_. finished c (''case-'' @ uuid_hex8 e) (length (outbox w)) 90) w"
  unfolding detect_image_manipulation_def Let_def
  apply (rule guard_step)
   apply (rule raise_step)
   apply (rule finished_start)
  apply (simp only: wp_seq wp_try_except)
  apply (rule db_add_commit_step)
  apply (rule register_step [where cid = "''case-'' @ uuid_hex8 e" and c = c and k = "length (outbox w)"])
  using fresh apply simp
     apply (simp add: new_queue_item_def)
    apply (simp add: new_queue_item_def)
   apply simp
  apply (rule wp_mono)
    apply (rule image_try_tracking [where c = c and k = "length (outbox w)" and cid = "''case-'' @ uuid_hex8 e"])
     apply simp
    apply assumption
   apply assumption
  apply (rule image_except_tracking)
   apply simp
  apply assumption
  done

lemma load_audio_files_tracking:
  "tracking c cid k hi w \<Longrightarrow> hi \<le> 20 + int n * 15 \<Longrightarrow>
   wp (load_audio_files e cid fs n)
     (\<lambda>_. tracking c cid k (20 + int (n + length fs) * 15))
     (\<lambda>_. tracking c cid k (20 + int (n + length fs) * 15)) w"
proof (induction fs arbitrary: n w hi)
  case Nil
  then show ?case
    by (simp add: tracking_mono)
next
  case (Cons audio rest)
  have bound: "20 + int n * 15 \<le> 20 + int (n + length (audio # rest)) * 15"
    by simp
  have weaken: "\<And>w'. tracking c cid k (20 + int n * 15) w' \<Longrightarrow>
      tracking c cid k (20 + int (n + length (audio # rest)) * 15) w'"
    by (erule tracking_mono) simp
  have start: "tracking c cid k (20 + int (n + length (audio # rest)) * 15) w"
    using Cons.prems by (auto elim: tracking_mono)
  show ?case
    unfolding load_audio_files.simps
    apply (rule guard_step)
     apply (rule raise_step)
     apply (rule start)
    apply (simp only: wp_seq)
    apply (rule call_step)
     apply (rule stage_step [OF Cons.prems(1) Cons.prems(2)])
     apply (rule call_step)
      apply (rule wp_mono)
        apply (rule Cons.IH [where n = "Suc n" and hi = "20 + int n * 15"])
         apply assumption
        apply simp
       apply simp
      apply simp
     apply (erule weaken)
    apply (rule start)
    done
qed

lemma audio_try_tracking:
  assumes cid: "case_id cs = cid" and inv: "tracking c cid k 0 w"
    and two: "length (audio_files io) = 2"
  shows "wp (audio_try e io cs) (\<lambda>_. finished c cid k 80) (\<lambda>_. tracking c cid k 80) w"
  using inv
  unfolding audio_try_def Let_def cid
  apply (simp only: wp_seq wp_ret)
  apply (rule wp_mono)
    apply (rule load_audio_files_tracking [where hi = 0 and c = c and k = k])
     apply assumption
    apply simp
   apply (simp only: two)
   apply (rule stage_step, assumption, simp)
   apply (rule call_step)
    apply (rule stage_step, assumption, simp)
    apply (rule db_commit_step)
    apply (rule remove_step)
     apply (simp only: tracking_db)
    apply assumption
   apply (erule tracking_mono, simp)
  apply (simp only: two)
  apply (erule tracking_mono, simp)
  done

lemma audio_except_tracking:
  assumes cid: "case_id cs = cid" and inv: "tracking c cid k 80 w"
  shows "wp (audio_except e cs ex) Q (\<lambda>_. finished c cid k 80) w"
  using inv
  unfolding audio_except_def cid
  apply (simp only: wp_seq wp_raise)
  apply (rule db_commit_step)
  apply (rule remove_step)
   apply (simp only: tracking_db)
  apply assumption
  done

lemma detect_audio_tracking:
  assumes fresh: "''case-'' @ uuid_hex8 e \<notin> item_id ` set (queue_items (queue_manager w))"
  shows "wp (detect_audio_manipulation e io)
           (\<lambda>_. finished c (''case-'' @ uuid_hex8 e) (length (outbox w)) 80)
           (\<lambda>_. finished c (''case-'' @ uuid_hex8 e) (length (outbox w)) 80) w"
  unfolding detect_audio_manipulation_def Let_def
  apply (rule guard_step)
   apply (rule raise_step)
   apply (rule finished_start)
  apply (simp only: wp_seq wp_try_except)
  apply (rule db_add_commit_step)
  apply (rule register_step [where cid = "''case-'' @ uuid_hex8 e" and c = c and k = "length (outbox w)"])
  using fresh apply simp
     apply (simp add: new_queue_item_def)
    apply (simp add: new_queue_item_def)
   apply simp
  apply (rule wp_mono)
    apply (rule audio_try_tracking [where c = c and k = "length (outbox w)" and cid = "''case-'' @ uuid_hex8 e"])
      apply simp
     apply assumption
    apply simp
   apply assumption
  apply (rule audio_except_tracking)
   apply simp
  apply assumption
  done

lemma py_int_nonneg: "0 \<le> x \<Longrightarrow> py_int x = \<lfloor>x\<rfloor>"
  by (simp add: py_int_def)

lemma frame_progress_mono:
  "30 + py_int (of_nat idx / of_nat n * 40) \<le> 30 + py_int (of_nat (Suc idx) / of_nat n * 40)"
proof -
  have "(of_nat idx :: rat) / of_nat n \<le> of_nat (Suc idx) / of_nat n"
    by (rule divide_right_mono) simp_all
  then have "(of_nat idx :: rat) / of_nat n * 40 \<le> of_nat (Suc idx) / of_nat n * 40"
    by (rule mult_right_mono) simp
  then have "\<lfloor>(of_nat idx :: rat) / of_nat n * 40\<rfloor> \<le> \<lfloor>(of_nat (Suc idx) :: rat) / of_nat n * 40\<rfloor>"
    by (rule floor_mono)
  then show ?thesis
    by (simp add: py_int_nonneg)
qed

lemma frame_progress_le:
  assumes "idx \<le> n"
  shows "30 + py_int (of_nat idx / of_nat n * 40) \<le> 70"
proof -
  have "(of_nat idx :: rat) / of_nat n \<le> 1"
    using assms by (cases "n = 0") (simp_all add: divide_le_eq_1)
  then have "(of_nat idx :: rat) / of_nat n * 40 \<le> 1 * 40"
    by (rule mult_right_mono) simp
  then have "(of_nat idx :: rat) / of_nat n * 40 \<le> 40"
    by simp
  then have "\<lfloor>(of_nat idx :: rat) / of_nat n * 40\<rfloor> \<le> \<lfloor>40 :: rat\<rfloor>"
    by (rule floor_mono)
  then show ?thesis
    by (simp add: py_int_nonneg)
qed

lemma truediv_step:
  "(b \<noteq> 0 \<Longrightarrow> Q (a / b) w) \<Longrightarrow> (b = 0 \<Longrightarrow> E ZeroDivisionError w) \<Longrightarrow> wp (truediv a b) Q E w"
  by simp

lemma analyze_frames_tracking:
  "tracking c cid k hi w \<Longrightarrow> hi \<le> 30 + py_int (of_nat idx / of_nat n * 40) \<Longrightarrow>
   idx + length frames \<le> n \<Longrightarrow>
   wp (analyze_frames e io cid n idx frames rs fs)
     (\<lambda>_. tracking c cid k 70) (\<lambda>_. tracking c cid k 70) w"
proof (induction frames arbitrary: idx w hi rs fs)
  case Nil
  have "hi \<le> 70"
    using Nil.prems(2,3) frame_progress_le [of idx n] by simp
  with Nil.prems(1) show ?case
    by (simp add: tracking_mono)
next
  case (Cons frame rest)
  have le70: "30 + py_int (of_nat idx / of_nat n * 40) \<le> 70"
    using Cons.prems(3) by (intro frame_progress_le) simp
  have start: "tracking c cid k 70 w"
    using Cons.prems(1,2) le70 by (auto elim: tracking_mono)
  have weaken: "\<And>w'. tracking c cid k (30 + py_int (of_nat idx / of_nat n * 40)) w' \<Longrightarrow>
      tracking c cid k 70 w'"
    using le70 by (auto elim: tracking_mono)
  show ?case
    unfolding analyze_frames.simps Let_def split_def
    apply (simp only: wp_seq)
    apply (rule call_step)
     apply (rule truediv_step)
      apply (rule stage_step [OF Cons.prems(1) Cons.prems(2)])
      apply (rule wp_mono)
        apply (rule Cons.IH [where idx = "Suc idx" and hi = "30 + py_int (of_nat idx / of_nat n * 40)"])
          apply assumption
         apply (rule frame_progress_mono)
    using Cons.prems(3) apply simp
       apply assumption
      apply assumption
     apply (rule start)
    apply (rule start)
    done
qed

lemma frames_step:
  assumes inv: "tracking c cid k 30 w"
    and cont: "\<And>a w'. tracking c cid k 70 w' \<Longrightarrow> Q a w'"
    and exc: "\<And>ex w'. tracking c cid k 70 w' \<Longrightarrow> E ex w'"
  shows "wp (if b then analyze_frames e io cid (length frames) 0 frames [] [] else ret x) Q E w"
proof (rule guard_step)
  show "wp (analyze_frames e io cid (length frames) 0 frames [] []) Q E w"
    by (rule wp_mono [OF analyze_frames_tracking [OF inv]])
       (simp_all add: py_int_def cont exc)
  have "tracking c cid k 70 w"
    by (rule tracking_mono [OF inv]) simp
  then show "wp (ret x) Q E w"
    by (simp add: cont)
qed

lemma duration_step:
  "(\<And>a. Q a w) \<Longrightarrow> (\<And>ex. E ex w) \<Longrightarrow> wp (if b then truediv x y else ret z) Q E w"
  by simp

lemma video_try_tracking:
  assumes cid: "case_id cs = cid" and inv: "tracking c cid k 0 w"
  shows "wp (video_try e io cs) (\<lambda>_. finished c cid k 80) (\<lambda>_. tracking c cid k 80) w"
  using inv
  unfolding video_try_def Let_def split_def cid
  apply (simp only: wp_seq wp_ret)
  apply (rule call_step)
   apply (rule stage_step, assumption, simp)
   apply (rule duration_step)
    apply (rule stage_step, assumption, simp)
    apply (rule frames_step)
      apply assumption
     apply (rule stage_step, assumption, simp)
     apply (rule db_commit_step)
     apply (rule remove_step)
      apply (simp only: tracking_db)
     apply assumption
    apply (erule tracking_mono, simp)+
  done

lemma video_except_tracking:
  assumes cid: "case_id cs = cid" and inv: "tracking c cid k 80 w"
  shows "wp (video_except e cs ex) Q (\<lambda>_. finished c cid k 80) w"
  using inv
  unfolding video_except_def cid
  apply (simp only: wp_seq wp_raise)
  apply (rule db_commit_step)
  apply (rule remove_step)
   apply (simp only: tracking_db)
  apply assumption
  done

lemma detect_video_tracking:
  assumes fresh: "''case-'' @ uuid_hex8 e \<notin> item_id ` set (queue_items (queue_manager w))"
  shows "wp (detect_video_manipulation e io)
           (\<lambda>_. finished c (''case-'' @ uuid_hex8 e) (length (outbox w)) 80)
           (\<lambda>_. finished c (''case-'' @ uuid_hex8 e) (length (outbox w)) 80) w"
  unfolding detect_video_manipulation_def Let_def
  apply (rule guard_step)
   apply (rule raise_step)
   apply (rule finished_start)
  apply (simp only: wp_seq wp_try_except)
  apply (rule db_add_commit_step)
  apply (rule register_step [where cid = "''case-'' @ uuid_hex8 e" and c = c and k = "length (outbox w)"])
  using fresh apply simp
     apply (simp add: new_queue_item_def)
    apply (simp add: new_queue_item_def)
   apply simp
  apply (rule wp_mono)
    apply (rule video_try_tracking [where c = c and k = "length (outbox w)" and cid = "''case-'' @ uuid_hex8 e"])
     apply simp
    apply assumption
   apply assumption
  apply (rule video_except_tracking)
   apply simp
  apply assumption
  done


lemma image_sample_run:
  "wp (detect_image_manipulation sample_env sample_image_io)
     (\<lambda>_ w'. progress_seen 1 ''case-0a1b2c3d'' (outbox w') = [0, 30, 70, 90] \<and>
        map status (db w') = [completed] \<and> queue_items (queue_manager w') = [])
     (\<lambda>_ _. False) (sample_world [1, 2, 3] [])"
  by (simp add: detect_image_manipulation_def image_try_def image_except_def classify_image_def
      sample_image_io_def run_simps photo_name_ok fake_flagged progress_seen_def job_progress_def)

lemma sample_case_id: "''case-'' @ uuid_hex8 sample_env = ''case-0a1b2c3d''"
  by (simp add: sample_env_def)

lemma sample_world_outbox: "outbox (sample_world conns items) = []"
  by (simp add: sample_world_def)



section \<open>Validation of audio submissions\<close>

text \<open>
  C7. An audio submission whose number of files is not 2 is rejected with the
  client error 400 and the state is returned as it was: no row is added to the cases
  table, the queue is untouched and nothing is sent to any subscriber.
\<close>

theorem audio_count_rejected:
  "length (audio_files io) \<noteq> 2 \<Longrightarrow>
   detect_audio_manipulation e io w =
     (Inl (HTTPException 400 ''Exactly 2 audio files required for speaker verification''), w)"
  by (simp add: detect_audio_manipulation_def raise_def)

theorem audio_count_rejected_witness:
  "length (audio_files one_file_io) \<noteq> 2 \<and>
   detect_audio_manipulation sample_env one_file_io (sample_world [1] [sample_item ''case-7'' 30]) =
     (Inl (HTTPException 400 ''Exactly 2 audio files required for speaker verification''),
      sample_world [1] [sample_item ''case-7'' 30])"
proof -
  have h: "length (audio_files one_file_io) \<noteq> 2"
    by (simp add: one_file_io_def)
  show ?thesis
    using h audio_count_rejected [OF h] by simp
qed

section \<open>Audio comparison\<close>

lemma wp_isr: "wp m (\<lambda>_ _. True) (\<lambda>_ _. False) w \<Longrightarrow> fst (m w) = Inr (projr (fst (m w)))"
  by (cases "m w") (auto simp: wp_def split: sum.splits)

lemma wp_Inl: "wp m (\<lambda>_ _. False) (\<lambda>ex w'. ex = ex0 \<and> P w') w \<Longrightarrow> fst (m w) = Inl ex0 \<and> P (snd (m w))"
  by (cases "m w") (auto simp: wp_def split: sum.splits)

lemma load_audio_files_frame:
  "db w = d \<Longrightarrow> wp (load_audio_files e cid fs n) (\<lambda>_ w'. db w' = d) (\<lambda>_ w'. db w' = d) w"
  by (induction fs arbitrary: n w) (simp_all add: wp_queue split: sum.splits)

lemma audio_success:
  "wp (detect_audio_manipulation e io)
     (\<lambda>r w'. \<forall>s. compare_speakers e io = Inr s \<longrightarrow>
        is_same_speaker r = (86 / 100 \<le> s) \<and>
        aud_verdict r = (if 86 / 100 \<le> s then ''Same Speaker'' else ''Different Speakers'') @
                         '' ('' @ format_f 0 (s * 100) @ ''% similarity)'' \<and>
        aud_confidence r = py_round (s * 100) 2 \<and> threshold r = 86 / 100 \<and>
        aud_caseId r = ''case-'' @ uuid_hex8 e \<and>
        (\<exists>row\<in>set (db w'). case_id row = aud_caseId r) \<and>
        (\<forall>row\<in>set (db w'). case_id row = aud_caseId r \<longrightarrow>
           status row = completed \<and> confidence row = py_round (s * 100) 1 \<and>
           verdict row = aud_verdict r))
     (\<lambda>_ _. True) w"
  unfolding detect_audio_manipulation_def audio_try_def audio_except_def
  apply (simp add: Let_def wp_queue)
  apply (intro impI)
  apply (rule wp_mono [OF load_audio_files_frame [OF refl]])
   apply (simp_all add: wp_queue split: sum.splits)
  apply auto
  done

lemma ninety: "format_f 0 90 = ''90''" "py_round 90 2 = 90"
  by code_simp+

text \<open>
  C8. When an audio submission succeeds and the comparator gave the similarity \<open>s\<close>,
  the response says same speaker exactly when \<open>s \<ge> 0.86\<close>, the verdict text is
  chosen accordingly, the confidence is \<open>s * 100\<close> rounded to two decimals and the
  threshold reported is 0.86. For \<open>s = 0.90\<close> the verdict is
  "Same Speaker (90% similarity)" and the confidence is 90.
\<close>

theorem audio_verdict_threshold:
  assumes "fst (detect_audio_manipulation e io w) = Inr r"
    and "compare_speakers e io = Inr s"
  shows "is_same_speaker r = (86 / 100 \<le> s) \<and>
     aud_verdict r = (if 86 / 100 \<le> s then ''Same Speaker'' else ''Different Speakers'') @
                      '' ('' @ format_f 0 (s * 100) @ ''% similarity)'' \<and>
     aud_confidence r = py_round (s * 100) 2 \<and> threshold r = 86 / 100 \<and>
     (s = 9 / 10 \<longrightarrow> aud_verdict r = ''Same Speaker (90% similarity)'' \<and> aud_confidence r = 90)"
proof -
  have main: "is_same_speaker r = (86 / 100 \<le> s) \<and>
     aud_verdict r = (if 86 / 100 \<le> s then ''Same Speaker'' else ''Different Speakers'') @
                      '' ('' @ format_f 0 (s * 100) @ ''% similarity)'' \<and>
     aud_confidence r = py_round (s * 100) 2 \<and> threshold r = 86 / 100"
    using wp_InrD [OF audio_success assms(1)] assms(2) by blast
  moreover have "s = 9 / 10 \<longrightarrow> aud_verdict r = ''Same Speaker (90% similarity)'' \<and> aud_confidence r = 90"
  proof
    assume s: "s = 9 / 10"
    from main have "aud_verdict r = ''Same Speaker'' @ '' ('' @ format_f 0 (9 / 10 * 100) @ ''% similarity)''"
      and "aud_confidence r = py_round (9 / 10 * 100) 2"
      unfolding s by simp_all
    then show "aud_verdict r = ''Same Speaker (90% similarity)'' \<and> aud_confidence r = 90"
      by (simp add: ninety)
  qed
  ultimately show ?thesis
    by blast
qed


lemma audio_names:
  "endswith (lower ''a.wav'') [''.wav'', ''.mp3'', ''.m4a'', ''.ogg'', ''.flac'']"
  "endswith (lower ''b.mp3'') [''.wav'', ''.mp3'', ''.m4a'', ''.ogg'', ''.flac'']"
  "\<not> endswith (lower ''b.txt'') [''.wav'', ''.mp3'', ''.m4a'', ''.ogg'', ''.flac'']"
  by code_simp+

lemmas audio_run_simps =
  detect_audio_manipulation_def audio_try_def audio_except_def compare_speakers_def
  sample_audio_io_def audio_names run_simps

lemma audio_sample_returns:
  "wp (detect_audio_manipulation sample_env (sample_audio_io ''b.mp3'' s))
     (\<lambda>_ w'. map confidence (db w') = [py_round (s * 100) 1])
     (\<lambda>_ _. False) (sample_world [1] [])"
  by (simp add: audio_run_simps)

lemma code_400: "str_int 400 = ''400''"
  by code_simp

lemma audio_sample_bad_format:
  "wp (detect_audio_manipulation sample_env (sample_audio_io ''b.txt'' (9 / 10)))
     (\<lambda>_ _. False)
     (\<lambda>ex w'. ex = HTTPException 500 ''Audio analysis failed: 400: Unsupported audio format: b.txt'' \<and>
        (map status (db w') = [failed] \<and> map filename (db w') = [''a.wav vs b.txt''] \<and>
         length (outbox w') = 3))
     (sample_world [1] [])"
  by (simp add: audio_run_simps code_400)

lemma audio_sample_ok:
  "wp (detect_audio_manipulation sample_env (sample_audio_io ''b.mp3'' s))
     (\<lambda>_ _. True) (\<lambda>_ _. False) (sample_world [1] [])"
  by (rule wp_mono [OF audio_sample_returns]) simp_all

lemma sample_similarity:
  "compare_speakers sample_env (sample_audio_io name s) = Inr s"
  by (simp add: compare_speakers_def sample_audio_io_def sample_env_def)

theorem audio_verdict_threshold_witness:
  "fst (detect_audio_manipulation sample_env (sample_audio_io ''b.mp3'' (9 / 10)) (sample_world [1] [])) =
     Inr (projr (fst (detect_audio_manipulation sample_env (sample_audio_io ''b.mp3'' (9 / 10))
        (sample_world [1] [])))) \<and>
   compare_speakers sample_env (sample_audio_io ''b.mp3'' (9 / 10)) = Inr (9 / 10) \<and>
   is_same_speaker (projr (fst (detect_audio_manipulation sample_env
     (sample_audio_io ''b.mp3'' (9 / 10)) (sample_world [1] [])))) \<and>
   aud_verdict (projr (fst (detect_audio_manipulation sample_env
     (sample_audio_io ''b.mp3'' (9 / 10)) (sample_world [1] [])))) = ''Same Speaker (90% similarity)'' \<and>
   aud_confidence (projr (fst (detect_audio_manipulation sample_env
     (sample_audio_io ''b.mp3'' (9 / 10)) (sample_world [1] [])))) = 90 \<and>
   threshold (projr (fst (detect_audio_manipulation sample_env
     (sample_audio_io ''b.mp3'' (9 / 10)) (sample_world [1] [])))) = 86 / 100"
proof -
  have h1: "fst (detect_audio_manipulation sample_env (sample_audio_io ''b.mp3'' (9 / 10)) (sample_world [1] [])) =
     Inr (projr (fst (detect_audio_manipulation sample_env (sample_audio_io ''b.mp3'' (9 / 10))
        (sample_world [1] []))))"
    by (rule wp_isr [OF audio_sample_ok])
  have h2: "compare_speakers sample_env (sample_audio_io ''b.mp3'' (9 / 10)) = Inr (9 / 10)"
    by (rule sample_similarity)
  have h3: "(86 / 100 :: rat) \<le> 9 / 10"
    by simp
  show ?thesis
    using audio_verdict_threshold [OF h1 h2] h1 h2 h3 by blast
qed

lemma rounded_8567: "py_round (8567 / 100) (Suc 0) = 857 / 10"
  by code_simp



text \<open>
  C4 on the code: an audio pair whose second file is named \<open>b.txt\<close>. The format check
  sits inside the \<open>try\<close> block, after the case row and the queue entry were created,
  and its 400 is caught by \<open>except Exception\<close>: the caller gets a 500, a failed
  row stays in the cases table and three snapshots were sent to the subscriber.
\<close>

theorem audio_format_rejected_after_creation:
  "fst (detect_audio_manipulation sample_env (sample_audio_io ''b.txt'' (9 / 10)) (sample_world [1] [])) =
     Inl (HTTPException 500 ''Audio analysis failed: 400: Unsupported audio format: b.txt'') \<and>
   (map status (db (snd (detect_audio_manipulation sample_env (sample_audio_io ''b.txt'' (9 / 10))
      (sample_world [1] [])))) = [failed] \<and>
    map filename (db (snd (detect_audio_manipulation sample_env (sample_audio_io ''b.txt'' (9 / 10))
      (sample_world [1] [])))) = [''a.wav vs b.txt''] \<and>
    length (outbox (snd (detect_audio_manipulation sample_env (sample_audio_io ''b.txt'' (9 / 10))
      (sample_world [1] [])))) = 3)"
  by (rule wp_Inl [OF audio_sample_bad_format])

section \<open>Video verdict and sampling\<close>

lemma wp_any: "(\<And>a w'. Q a w') \<Longrightarrow> (\<And>ex w'. E ex w') \<Longrightarrow> wp m Q E w"
  by (cases "m w") (auto simp: wp_def split: sum.splits)

lemma real_not_flagged: "lower ''Real'' = ''real''"
  by code_simp

lemma analyze_frames_details:
  "fs = map snd (filter flagged_fake rs) \<Longrightarrow>
   wp (analyze_frames e io cid n idx frames rs fs)
     (\<lambda>a _. snd a = map snd (filter flagged_fake (fst a))) (\<lambda>_ _. True) w"
proof (induction frames arbitrary: idx w rs fs)
  case Nil
  then show ?case
    by simp
next
  case (Cons frame rest)
  show ?case
    unfolding analyze_frames.simps Let_def split_def
    apply (simp only: wp_seq)
    apply (rule call_step)
     apply (rule wp_any)
      apply (rule wp_any)
       apply (rule wp_any)
        apply (rule Cons.IH)
        apply (simp add: flagged_fake_def Cons.prems)
       apply simp_all
    done
qed

lemma mock_frames_details:
  "fs = map snd (filter flagged_fake rs) \<Longrightarrow>
   snd (mock_frames io k frames rs fs) = map snd (filter flagged_fake (fst (mock_frames io k frames rs fs)))"
proof (induction frames arbitrary: k rs fs)
  case Nil
  then show ?case
    by simp
next
  case (Cons frame rest)
  show ?case
    unfolding mock_frames.simps Let_def
    by (rule Cons.IH) (simp add: flagged_fake_def fake_flagged real_not_flagged Cons.prems)
qed

lemma classify_frames_details:
  "wp (if b then analyze_frames e io cid n 0 frames [] [] else ret (mock_frames io 0 frames [] []))
     (\<lambda>a _. snd a = map snd (filter flagged_fake (fst a))) (\<lambda>_ _. True) w"
  by (rule guard_step) (simp_all add: analyze_frames_details mock_frames_details)

lemma video_try_details:
  "wp (video_try e io c)
     (\<lambda>r _. vid_is_fake r = (60 < mean_fake_confidence (frame_details r)) \<and>
        vid_confidence r =
          py_round (if 60 < mean_fake_confidence (frame_details r)
                    then mean_fake_confidence (frame_details r)
                    else if 0 < mean_fake_confidence (frame_details r)
                         then 100 - mean_fake_confidence (frame_details r)
                         else uniform_70_90 io) 2)
     (\<lambda>_ _. True) w"
  unfolding video_try_def Let_def split_def
  apply (simp only: wp_seq)
  apply (rule wp_any)
   apply (rule wp_any)
    apply (rule wp_any)
     apply (rule wp_any)
      apply (rule wp_any)
       apply (rule wp_any)
        apply (rule wp_mono [OF classify_frames_details])
         apply (simp add: wp_queue mean_fake_confidence_def)
        apply simp_all
  done

lemma video_except_raises: "wp (video_except e c ex) Q (\<lambda>_ _. True) w"
  by (simp add: video_except_def wp_queue)

lemma detect_video_details:
  "wp (detect_video_manipulation e io)
     (\<lambda>r _. vid_is_fake r = (60 < mean_fake_confidence (frame_details r)) \<and>
        vid_confidence r =
          py_round (if 60 < mean_fake_confidence (frame_details r)
                    then mean_fake_confidence (frame_details r)
                    else if 0 < mean_fake_confidence (frame_details r)
                         then 100 - mean_fake_confidence (frame_details r)
                         else uniform_70_90 io) 2)
     (\<lambda>_ _. True) w"
  unfolding detect_video_manipulation_def Let_def
  apply (rule guard_step)
   apply simp
  apply (simp only: wp_seq wp_try_except)
  apply (rule wp_any)
   apply (rule wp_any)
    apply (rule wp_any)
     apply (rule wp_mono [OF video_try_details])
      apply assumption
     apply (rule video_except_raises)
    apply simp_all
  done


lemma wp_not_Inl: "wp m (\<lambda>_ _. True) (\<lambda>ex _. ex \<noteq> ex0) w \<Longrightarrow> fst (m w) \<noteq> Inl ex0"
  by (cases "m w") (auto simp: wp_def split: sum.splits)

lemma wp_Inr_ex: "wp m (\<lambda>r _. P r) (\<lambda>_ _. False) w \<Longrightarrow> \<exists>r. fst (m w) = Inr r \<and> P r"
  by (cases "m w") (auto simp: wp_def split: sum.splits)

lemma analyze_frames_no_zero_division:
  "(n = 0 \<longrightarrow> frames = []) \<Longrightarrow>
   wp (analyze_frames e io cid n idx frames rs fs)
     (\<lambda>_ _. True) (\<lambda>ex _. ex \<noteq> ZeroDivisionError) w"
proof (induction frames arbitrary: idx w rs fs)
  case Nil
  then show ?case
    by simp
next
  case (Cons frame rest)
  from Cons.prems have n: "n \<noteq> 0"
    by simp
  then have rest: "n = 0 \<longrightarrow> rest = []"
    by simp
  show ?case
    unfolding analyze_frames.simps Let_def split_def
    apply (simp only: wp_seq)
    apply (simp add: wp_queue n Cons.IH [OF rest] split: sum.splits)
    done
qed

lemma on_queue_any: "(\<And>w'. Q () w') \<Longrightarrow> wp (on_queue f) Q E w"
  by (simp add: wp_queue)

lemma broadcast_any: "(\<And>w'. Q () w') \<Longrightarrow> wp (broadcast_queue e) Q E w"
  by (simp add: wp_queue)

lemma db_commit_any: "(\<And>w'. Q () w') \<Longrightarrow> wp (db_commit x) Q E w"
  by simp

lemma call_exn_step:
  "(\<And>a. Q a w) \<Longrightarrow> (\<And>msg. E (Exception msg) w) \<Longrightarrow> wp (call outcome) Q E w"
  by (simp split: sum.splits)

lemma duration_no_zero_division:
  "(\<And>a. Q a w) \<Longrightarrow> wp (if 0 < b then truediv a b else ret 0) Q E w"
  by simp

lemma frames_no_zero_division:
  assumes "\<And>a w'. Q a w'" and "\<And>ex w'. ex \<noteq> ZeroDivisionError \<Longrightarrow> E ex w'"
  shows "wp (if b then analyze_frames e io cid (length frames) 0 frames [] [] else ret x) Q E w"
proof (rule guard_step)
  show "wp (analyze_frames e io cid (length frames) 0 frames [] []) Q E w"
    by (rule wp_mono [OF analyze_frames_no_zero_division]) (simp_all add: assms)
  show "wp (ret x) Q E w"
    by (simp add: assms)
qed

lemma video_try_no_zero_division:
  "wp (video_try e io c) (\<lambda>_ _. True) (\<lambda>ex _. ex \<noteq> ZeroDivisionError) w"
  unfolding video_try_def Let_def split_def
  apply (simp only: wp_seq)
  apply (rule call_exn_step)
   apply (rule on_queue_any)
   apply (rule broadcast_any)
   apply (rule duration_no_zero_division)
   apply (rule on_queue_any)
   apply (rule broadcast_any)
   apply (rule frames_no_zero_division)
    apply (rule on_queue_any)
    apply (rule broadcast_any)
    apply (rule db_commit_any)
    apply (rule on_queue_any)
    apply (rule broadcast_any)
    apply simp_all
  done

lemma upt_8: "[0..<8] = [0, 1, 2, 3, 4, 5, 6, 7]"
  by code_simp

lemma frame_indices_first:
  "length (frame_indices t) = 8 \<and> hd (frame_indices t) = 0"
  by (simp add: frame_indices_def upt_8 py_int_def)

lemma video_without_frames:
  assumes "endswith (lower (video_filename io)) [''.mp4'', ''.mov'', ''.avi'', ''.mkv'', ''.webm'']"
    and "copy_outcome io = Inr ()"
    and "read_frames (cap_read io) (frame_indices (frame_count io)) = []"
  shows "wp (detect_video_manipulation e io)
     (\<lambda>r _. \<not> vid_is_fake r \<and> vid_confidence r = py_round (uniform_70_90 io) 2 \<and>
        frames_analyzed r = 0)
     (\<lambda>_ _. False) w"
  by (simp add: detect_video_manipulation_def video_try_def video_except_def wp_queue Let_def assms)


lemma clip_name_ok:
  "endswith (lower ''clip.mp4'') [''.mp4'', ''.mov'', ''.avi'', ''.mkv'', ''.webm'']"
  by code_simp

lemma frame_indices_100: "frame_indices 100 = [0, 14, 28, 42, 56, 70, 84, 99]"
  by code_simp

lemma frame_indices_0: "frame_indices 0 = [0, 0, 0, 0, 0, 0, 0, 0]"
  by code_simp

lemma rounded_80: "py_round 80 2 = 80"
  by code_simp

lemmas video_run_simps =
  detect_video_manipulation_def video_try_def video_except_def sample_video_io_def
  sample_frame_label_def sample_cap_read_def clip_name_ok run_simps

lemma video_real_run:
  "wp (detect_video_manipulation sample_env real_video_io)
     (\<lambda>r _. frame_details r = [(''Real'', 75)] \<and> \<not> vid_is_fake r \<and> vid_confidence r = 80)
     (\<lambda>_ _. False) (sample_world [1] [])"
  by (simp add: video_run_simps real_video_io_def first_frame_only_def frame_indices_100
      real_not_flagged rounded_80 mean_def)

lemma mean_fake_real: "mean_fake_confidence [(''Real'', 75)] = 0"
  by (simp add: mean_fake_confidence_def flagged_fake_def real_not_flagged)




section \<open>The failure commit\<close>

lemma on_queue_db: "(\<And>w'. db w' = db w \<Longrightarrow> Q () w') \<Longrightarrow> wp (on_queue f) Q E w"
  by (simp add: wp_queue)

lemma broadcast_db: "(\<And>w'. db w' = db w \<Longrightarrow> Q () w') \<Longrightarrow> wp (broadcast_queue e) Q E w"
  by (simp add: wp_queue)

lemma image_try_keeps_db:
  "db w = d \<Longrightarrow> wp (image_try e io c) (\<lambda>_ _. True) (\<lambda>_ w'. db w' = d) w"
  unfolding image_try_def Let_def split_def
  apply (simp only: wp_seq)
  apply (rule call_step)
   apply (rule on_queue_db)
   apply (rule broadcast_db)
   apply (rule classify_image_step)
    apply (simp_all add: wp_queue)
  done

lemma analyze_frames_keeps_db:
  "db w = d \<Longrightarrow> wp (analyze_frames e io cid n idx frames rs fs) (\<lambda>_ w'. db w' = d) (\<lambda>_ w'. db w' = d) w"
  by (induction frames arbitrary: idx w rs fs)
     (simp_all add: wp_queue Let_def split_def split: sum.splits)

lemma audio_try_keeps_db:
  "db w = d \<Longrightarrow> wp (audio_try e io c) (\<lambda>_ _. True) (\<lambda>_ w'. db w' = d) w"
  unfolding audio_try_def Let_def
  apply (simp only: wp_seq)
  apply (rule wp_mono [OF load_audio_files_frame])
    apply assumption
   apply (rule on_queue_db)
   apply (rule broadcast_db)
   apply (rule call_step)
    apply (simp_all add: wp_queue)
  done

lemma video_try_keeps_db:
  "db w = d \<Longrightarrow> wp (video_try e io c) (\<lambda>_ _. True) (\<lambda>_ w'. db w' = d) w"
  unfolding video_try_def Let_def split_def
  apply (simp only: wp_seq)
  apply (rule call_step)
   apply (rule on_queue_db)
   apply (rule broadcast_db)
   apply (rule duration_step)
    apply (rule on_queue_db)
    apply (rule broadcast_db)
    apply (rule guard_step)
     apply (rule wp_mono [OF analyze_frames_keeps_db [where d = d]])
       apply simp
      apply (simp_all add: wp_queue)
  done

lemma image_except_commits:
  assumes d: "db w = d @ [new_case e mt fname]"
  shows "wp (image_except e (new_case e mt fname) ex) Q
     (\<lambda>ex' w'. ex' = HTTPException 500 (''Image analysis failed: '' @ str_exn ex) \<and>
        (\<exists>row\<in>set (db w'). case_id row = ''case-'' @ uuid_hex8 e) \<and>
        (\<forall>row\<in>set (db w'). case_id row = ''case-'' @ uuid_hex8 e \<longrightarrow>
           status row = failed \<and> verdict row = ''Analysis Failed'' \<and>
           completed_at row = None \<and> explanation row = Some (str_exn ex))) w"
  unfolding image_except_def
  by (auto simp: wp_queue d new_case_def)

lemma audio_except_commits:
  assumes d: "db w = d @ [new_case e mt fname]"
  shows "wp (audio_except e (new_case e mt fname) ex) Q
     (\<lambda>ex' w'. ex' = HTTPException 500 (''Audio analysis failed: '' @ str_exn ex) \<and>
        (\<exists>row\<in>set (db w'). case_id row = ''case-'' @ uuid_hex8 e) \<and>
        (\<forall>row\<in>set (db w'). case_id row = ''case-'' @ uuid_hex8 e \<longrightarrow>
           status row = failed \<and> verdict row = ''Analysis Failed'' \<and>
           completed_at row = None)) w"
  unfolding audio_except_def
  by (auto simp: wp_queue d new_case_def)

lemma video_except_commits:
  assumes d: "db w = d @ [new_case e mt fname]"
  shows "wp (video_except e (new_case e mt fname) ex) Q
     (\<lambda>ex' w'. ex' = HTTPException 500 (''Video processing failed: '' @ str_exn ex) \<and>
        (\<exists>row\<in>set (db w'). case_id row = ''case-'' @ uuid_hex8 e) \<and>
        (\<forall>row\<in>set (db w'). case_id row = ''case-'' @ uuid_hex8 e \<longrightarrow>
           status row = failed \<and> verdict row = ''Analysis Failed'' \<and>
           completed_at row = None)) w"
  unfolding video_except_def
  by (auto simp: wp_queue d new_case_def)

lemma detect_image_failure:
  "wp (detect_image_manipulation e io) (\<lambda>_ _. True)
     (\<lambda>ex w'. \<forall>msg. ex = HTTPException 500 msg \<longrightarrow>
        (\<exists>row\<in>set (db w'). case_id row = ''case-'' @ uuid_hex8 e) \<and>
        (\<forall>row\<in>set (db w'). case_id row = ''case-'' @ uuid_hex8 e \<longrightarrow>
           status row = failed \<and> verdict row = ''Analysis Failed'' \<and>
           completed_at row = None \<and>
           (\<exists>reason. explanation row = Some reason \<and> msg = ''Image analysis failed: '' @ reason))) w"
  unfolding detect_image_manipulation_def Let_def
  apply (rule guard_step)
   apply simp
  apply (simp only: wp_seq wp_try_except)
  apply (rule db_add_commit_step)
  apply (rule on_queue_db)
  apply (rule broadcast_db)
  apply (rule wp_mono [OF image_try_keeps_db [OF refl]])
   apply simp
  apply (rule wp_mono [OF image_except_commits [where d = "db w"]])
    apply simp
   apply simp
  apply auto
  done

lemma detect_audio_failure:
  "wp (detect_audio_manipulation e io) (\<lambda>_ _. True)
     (\<lambda>ex w'. \<forall>msg. ex = HTTPException 500 msg \<longrightarrow>
        (\<exists>row\<in>set (db w'). case_id row = ''case-'' @ uuid_hex8 e) \<and>
        (\<forall>row\<in>set (db w'). case_id row = ''case-'' @ uuid_hex8 e \<longrightarrow>
           status row = failed \<and> verdict row = ''Analysis Failed'' \<and>
           completed_at row = None)) w"
  unfolding detect_audio_manipulation_def Let_def
  apply (rule guard_step)
   apply simp
  apply (simp only: wp_seq wp_try_except)
  apply (rule db_add_commit_step)
  apply (rule on_queue_db)
  apply (rule broadcast_db)
  apply (rule wp_mono [OF audio_try_keeps_db [OF refl]])
   apply simp
  apply (rule wp_mono [OF audio_except_commits [where d = "db w"]])
    apply simp
   apply simp
  apply auto
  done

lemma detect_video_failure:
  "wp (detect_video_manipulation e io) (\<lambda>_ _. True)
     (\<lambda>ex w'. \<forall>msg. ex = HTTPException 500 msg \<longrightarrow>
        (\<exists>row\<in>set (db w'). case_id row = ''case-'' @ uuid_hex8 e) \<and>
        (\<forall>row\<in>set (db w'). case_id row = ''case-'' @ uuid_hex8 e \<longrightarrow>
           status row = failed \<and> verdict row = ''Analysis Failed'' \<and>
           completed_at row = None)) w"
  unfolding detect_video_manipulation_def Let_def
  apply (rule guard_step)
   apply simp
  apply (simp only: wp_seq wp_try_except)
  apply (rule db_add_commit_step)
  apply (rule on_queue_db)
  apply (rule broadcast_db)
  apply (rule wp_mono [OF video_try_keeps_db [OF refl]])
   apply simp
  apply (rule wp_mono [OF video_except_commits [where d = "db w"]])
    apply simp
   apply simp
  apply auto
  done

text \<open>
  C2 (as the code has it). When an endpoint answers 500, its pipeline raised after the
  case row was created. The row of the case then exists, and every row with the case's
  ID has status failed and verdict "Analysis Failed", written by one commit, and no
  completion time. For an image the explanation is the failure reason that the 500
  message carries.
\<close>

theorem failure_commit:
  "(fst (detect_image_manipulation e img w) = Inl (HTTPException 500 msg_i) \<longrightarrow>
      (\<exists>row\<in>set (db (snd (detect_image_manipulation e img w))). case_id row = ''case-'' @ uuid_hex8 e) \<and>
      (\<forall>row\<in>set (db (snd (detect_image_manipulation e img w))).
         case_id row = ''case-'' @ uuid_hex8 e \<longrightarrow>
         status row = failed \<and> verdict row = ''Analysis Failed'' \<and> completed_at row = None \<and>
         (\<exists>reason. explanation row = Some reason \<and> msg_i = ''Image analysis failed: '' @ reason))) \<and>
   (fst (detect_audio_manipulation e aud w) = Inl (HTTPException 500 msg_a) \<longrightarrow>
      (\<exists>row\<in>set (db (snd (detect_audio_manipulation e aud w))). case_id row = ''case-'' @ uuid_hex8 e) \<and>
      (\<forall>row\<in>set (db (snd (detect_audio_manipulation e aud w))).
         case_id row = ''case-'' @ uuid_hex8 e \<longrightarrow>
         status row = failed \<and> verdict row = ''Analysis Failed'' \<and> completed_at row = None)) \<and>
   (fst (detect_video_manipulation e vid w) = Inl (HTTPException 500 msg_v) \<longrightarrow>
      (\<exists>row\<in>set (db (snd (detect_video_manipulation e vid w))). case_id row = ''case-'' @ uuid_hex8 e) \<and>
      (\<forall>row\<in>set (db (snd (detect_video_manipulation e vid w))).
         case_id row = ''case-'' @ uuid_hex8 e \<longrightarrow>
         status row = failed \<and> verdict row = ''Analysis Failed'' \<and> completed_at row = None))"
proof (intro conjI impI)
  assume "fst (detect_image_manipulation e img w) = Inl (HTTPException 500 msg_i)"
  from wp_InlD [OF detect_image_failure this]
  show "\<exists>row\<in>set (db (snd (detect_image_manipulation e img w))). case_id row = ''case-'' @ uuid_hex8 e"
    and "\<forall>row\<in>set (db (snd (detect_image_manipulation e img w))).
         case_id row = ''case-'' @ uuid_hex8 e \<longrightarrow>
         status row = failed \<and> verdict row = ''Analysis Failed'' \<and> completed_at row = None \<and>
         (\<exists>reason. explanation row = Some reason \<and> msg_i = ''Image analysis failed: '' @ reason)"
    by blast+
next
  assume "fst (detect_audio_manipulation e aud w) = Inl (HTTPException 500 msg_a)"
  from wp_InlD [OF detect_audio_failure this]
  show "\<exists>row\<in>set (db (snd (detect_audio_manipulation e aud w))). case_id row = ''case-'' @ uuid_hex8 e"
    and "\<forall>row\<in>set (db (snd (detect_audio_manipulation e aud w))).
         case_id row = ''case-'' @ uuid_hex8 e \<longrightarrow>
         status row = failed \<and> verdict row = ''Analysis Failed'' \<and> completed_at row = None"
    by blast+
next
  assume "fst (detect_video_manipulation e vid w) = Inl (HTTPException 500 msg_v)"
  from wp_InlD [OF detect_video_failure this]
  show "\<exists>row\<in>set (db (snd (detect_video_manipulation e vid w))). case_id row = ''case-'' @ uuid_hex8 e"
    and "\<forall>row\<in>set (db (snd (detect_video_manipulation e vid w))).
         case_id row = ''case-'' @ uuid_hex8 e \<longrightarrow>
         status row = failed \<and> verdict row = ''Analysis Failed'' \<and> completed_at row = None"
    by blast+
qed

lemma image_broken_run:
  "wp (detect_image_manipulation sample_env broken_image_io) (\<lambda>_ _. False)
     (\<lambda>ex w'. ex = HTTPException 500 ''Image analysis failed: cannot identify image file'' \<and>
        (map status (db w') = [failed] \<and> map verdict (db w') = [''Analysis Failed''] \<and>
         map explanation (db w') = [Some ''cannot identify image file''] \<and>
         map completed_at (db w') = [None]))
     (sample_world [1] [])"
  by (simp add: detect_image_manipulation_def image_try_def image_except_def
      broken_image_io_def sample_image_io_def photo_name_ok run_simps)

lemma video_broken_run:
  "wp (detect_video_manipulation sample_env broken_video_io) (\<lambda>_ _. False)
     (\<lambda>ex w'. ex = HTTPException 500 ''Video processing failed: disk full'' \<and>
        map explanation (db w') = [None])
     (sample_world [1] [])"
  by (simp add: video_run_simps broken_video_io_def)

text \<open>
  C2 as stated fails: an image that cannot be opened is committed as failed with the
  verdict and the reason, and its completion time stays empty.
\<close>

theorem failed_image_has_no_completion_time:
  "fst (detect_image_manipulation sample_env broken_image_io (sample_world [1] [])) =
     Inl (HTTPException 500 ''Image analysis failed: cannot identify image file'') \<and>
   (map status (db (snd (detect_image_manipulation sample_env broken_image_io (sample_world [1] [])))) =
      [failed] \<and>
    map verdict (db (snd (detect_image_manipulation sample_env broken_image_io (sample_world [1] [])))) =
      [''Analysis Failed''] \<and>
    map explanation (db (snd (detect_image_manipulation sample_env broken_image_io (sample_world [1] [])))) =
      [Some ''cannot identify image file''] \<and>
    map completed_at (db (snd (detect_image_manipulation sample_env broken_image_io (sample_world [1] [])))) =
      [None])"
  by (rule wp_Inl [OF image_broken_run])

theorem failure_commit_witness:
  "fst (detect_image_manipulation sample_env broken_image_io (sample_world [1] [])) =
     Inl (HTTPException 500 ''Image analysis failed: cannot identify image file'') \<and>
   fst (detect_audio_manipulation sample_env (sample_audio_io ''b.txt'' (9 / 10)) (sample_world [1] [])) =
     Inl (HTTPException 500 ''Audio analysis failed: 400: Unsupported audio format: b.txt'') \<and>
   fst (detect_video_manipulation sample_env broken_video_io (sample_world [1] [])) =
     Inl (HTTPException 500 ''Video processing failed: disk full'') \<and>
   (\<exists>row\<in>set (db (snd (detect_image_manipulation sample_env broken_image_io (sample_world [1] [])))).
      case_id row = ''case-'' @ uuid_hex8 sample_env) \<and>
   (\<exists>row\<in>set (db (snd (detect_audio_manipulation sample_env (sample_audio_io ''b.txt'' (9 / 10))
        (sample_world [1] [])))). case_id row = ''case-'' @ uuid_hex8 sample_env) \<and>
   (\<exists>row\<in>set (db (snd (detect_video_manipulation sample_env broken_video_io (sample_world [1] [])))).
      case_id row = ''case-'' @ uuid_hex8 sample_env)"
proof -
  have h1: "fst (detect_image_manipulation sample_env broken_image_io (sample_world [1] [])) =
     Inl (HTTPException 500 ''Image analysis failed: cannot identify image file'')"
    using wp_Inl [OF image_broken_run] by blast
  have h2: "fst (detect_audio_manipulation sample_env (sample_audio_io ''b.txt'' (9 / 10)) (sample_world [1] [])) =
     Inl (HTTPException 500 ''Audio analysis failed: 400: Unsupported audio format: b.txt'')"
    using wp_Inl [OF audio_sample_bad_format] by blast
  have h3: "fst (detect_video_manipulation sample_env broken_video_io (sample_world [1] [])) =
     Inl (HTTPException 500 ''Video processing failed: disk full'')"
    using wp_Inl [OF video_broken_run] by blast
  show ?thesis
    using failure_commit [of sample_env broken_image_io "sample_world [1] []"
        "''Image analysis failed: cannot identify image file''"
        "sample_audio_io ''b.txt'' (9 / 10)"
        "''Audio analysis failed: 400: Unsupported audio format: b.txt''"
        broken_video_io "''Video processing failed: disk full''"] h1 h2 h3
    by blast
qed

end
